theory Spec2Isabelle
  imports Complex_Main "HOL-Library.AList"
begin

section \<open>The Hermes microservice (microservice/index.js)\<close>

text \<open>
  The service keeps two JSON files (the transaction database \<open>./trdb.json\<close> and the divine
  tokens cache \<open>./divineTokensCache.json\<close>) and one in-memory object, \<open>divineTokensCache\<close>.
  It talks to the chain (view calls and transactions of the Zephyr contract, the
  \<open>decimals\<close> view of a token), to the main backend (one HTTP POST) and to the file system.
  The model passes this state explicitly and records every interaction with the chain and
  the backend in a trace; the answers of the outside world during one handler run are the
  fields of an environment record. Console output is left out.

  The files are read as the service writes them: \<open>./trdb.json\<close>, when it parses, holds an
  array of transaction records, and \<open>./divineTokensCache.json\<close> an object from token
  addresses to booleans. The cache object is the list of its own properties in insertion
  order (the order of \<open>Object.keys\<close>); its keys are the addresses the handlers pass, none of
  which names a property of \<open>Object.prototype\<close>.
\<close>

subsection \<open>Files, errors, the outside world\<close>

type_synonym error = string
  \<comment> \<open>the \<open>message\<close> of a thrown JavaScript error\<close>

datatype 'a json_file =
    Missing        \<comment> \<open>\<open>fs.existsSync\<close> is false\<close>
  | Unparsable     \<comment> \<open>\<open>JSON.parse\<close> throws\<close>
  | Parsed 'a      \<comment> \<open>the value \<open>JSON.parse\<close> returns\<close>

datatype fs_write =
    Written                 \<comment> \<open>\<open>fs.writeFileSync\<close> returned\<close>
  | Failed_intact error     \<comment> \<open>it threw and the old file is still there\<close>
  | Failed_damaged error    \<comment> \<open>it threw after truncating the file\<close>

record txData =
  timestamp :: nat
  from_address :: string        \<comment> \<open>the field \<open>from\<close>\<close>
  tokenAddress :: string
  amount :: string
  formattedAmount :: string
  txHash :: string

record receipt =
  hash :: string
  blockNumber :: nat

record payload =
  p_sender :: string
  p_tokenAddress :: string
  p_amount :: string
  p_formattedAmount :: string
  p_txHash :: string
  p_timestamp :: string

subsection \<open>JavaScript values of a request body\<close>

datatype jsnum = NaN | Fin rat | Infinity | NegInfinity
  \<comment> \<open>a Number; \<open>Fin\<close> carries its value (\<open>-0\<close> and \<open>0\<close> are both \<open>Fin 0\<close>)\<close>

datatype jsval =
    JUndefined
  | JNull
  | JBool bool
  | JNumber jsnum
  | JString string
  | JArray "jsval list"
  | JObject "(string \<times> jsval) list"

datatype effect =
    Call_isTokenDivine string                       \<comment> \<open>\<open>zephyrContract.isTokenDivine\<close> (view)\<close>
  | Call_decimals string                            \<comment> \<open>\<open>tokenContract.decimals\<close> (view)\<close>
  | Send_blessWithTokens string string int jsval    \<comment> \<open>\<open>zephyrContract.blessWithTokens\<close>\<close>
  | Send_blessToken string                          \<comment> \<open>\<open>zephyrContract.blessToken\<close>\<close>
  | Send_unBlessToken string                        \<comment> \<open>\<open>zephyrContract.unBlessToken\<close>\<close>
  | Post_token_received payload                     \<comment> \<open>\<open>axios.post\<close> to \<open>/token-received\<close>\<close>

fun is_chain_call :: "effect \<Rightarrow> bool" where
  "is_chain_call (Post_token_received _) = False"
| "is_chain_call _ = True"

fun is_notification :: "effect \<Rightarrow> bool" where
  "is_notification (Post_token_received _) = True"
| "is_notification _ = False"

record env =
  chain_isTokenDivine :: "string \<Rightarrow> error + bool"
  chain_decimals :: "string \<Rightarrow> error + nat"
  chain_blessWithTokens :: "string \<Rightarrow> string \<Rightarrow> int \<Rightarrow> jsval \<Rightarrow> error + receipt"
    \<comment> \<open>the transaction and its \<open>tx.wait()\<close>: \<open>Inl\<close> when either throws\<close>
  chain_blessToken :: "string \<Rightarrow> error + receipt"
  chain_unBlessToken :: "string \<Rightarrow> error + receipt"
  write_trdb :: fs_write                 \<comment> \<open>\<open>fs.writeFileSync(TRDB_PATH, ...)\<close>\<close>
  write_cache :: fs_write                \<comment> \<open>\<open>fs.writeFileSync(DIVINE_TOKENS_CACHE_PATH, ...)\<close>\<close>
  Date_now :: nat                        \<comment> \<open>\<open>Date.now()\<close>\<close>
  Date_toISOString :: string             \<comment> \<open>\<open>new Date().toISOString()\<close>\<close>

text \<open>
  The functions of the \<open>ethers\<close> library that the service calls are parameters of the model:
  \<open>ethers.isAddress\<close> (on strings; it is false on every other value),
  \<open>ethers.formatUnits\<close> and \<open>ethers.parseUnits\<close> (both may throw).
\<close>

record ethers =
  ethers_isAddress :: "string \<Rightarrow> bool"
  ethers_formatUnits :: "nat \<Rightarrow> nat \<Rightarrow> error + string"
  ethers_parseUnits :: "jsval \<Rightarrow> nat \<Rightarrow> error + int"

record state =
  trdb :: "txData list json_file"                       \<comment> \<open>\<open>./trdb.json\<close>\<close>
  cache_file :: "(string \<times> bool) list json_file"       \<comment> \<open>\<open>./divineTokensCache.json\<close>\<close>
  divineTokensCache :: "(string \<times> bool) list"     \<comment> \<open>own properties, in insertion order\<close>
  trace :: "effect list"                           \<comment> \<open>oldest first\<close>

definition chain_calls :: "state \<Rightarrow> effect list" where
  "chain_calls s = filter is_chain_call (trace s)"

definition notifications :: "state \<Rightarrow> effect list" where
  "notifications s = filter is_notification (trace s)"

definition emit :: "effect \<Rightarrow> state \<Rightarrow> state" where
  "emit e s = s\<lparr>trace := trace s @ [e]\<rparr>"

subsection \<open>The transaction database\<close>

definition loadTransactionDB :: "state \<Rightarrow> txData list" where
  "loadTransactionDB s = (case trdb s of Missing \<Rightarrow> [] | Unparsable \<Rightarrow> [] | Parsed db \<Rightarrow> db)"

definition saveTransactionDB :: "env \<Rightarrow> txData list \<Rightarrow> state \<Rightarrow> (error + unit) \<times> state" where
  "saveTransactionDB w data s =
     (case write_trdb w of
        Written \<Rightarrow> (Inr (), s\<lparr>trdb := Parsed data\<rparr>)
      | Failed_intact e \<Rightarrow> (Inl e, s)
      | Failed_damaged e \<Rightarrow> (Inl e, s\<lparr>trdb := Unparsable\<rparr>))"

definition transactionExists :: "string \<Rightarrow> txData list \<Rightarrow> bool" where
  "transactionExists h db = list_ex (\<lambda>tx. txHash tx = h) db"

definition appendTransaction :: "env \<Rightarrow> txData \<Rightarrow> state \<Rightarrow> (error + unit) \<times> state" where
  "appendTransaction w tx s =
     (let db = loadTransactionDB s in
      if \<not> transactionExists (txHash tx) db
      then saveTransactionDB w (db @ [tx]) s
      else (Inr (), s))"

subsection \<open>The divine tokens cache\<close>

definition loadDivineTokensCache :: "(string \<times> bool) list json_file \<Rightarrow> (string \<times> bool) list" where
  "loadDivineTokensCache f = (case f of Missing \<Rightarrow> [] | Unparsable \<Rightarrow> [] | Parsed c \<Rightarrow> c)"

definition saveDivineTokensCache :: "env \<Rightarrow> state \<Rightarrow> state" where
  "saveDivineTokensCache w s =
     (case write_cache w of
        Written \<Rightarrow> s\<lparr>cache_file := Parsed (divineTokensCache s)\<rparr>
      | Failed_intact e \<Rightarrow> s
      | Failed_damaged e \<Rightarrow> s\<lparr>cache_file := Unparsable\<rparr>)"

definition isTokenDivine :: "env \<Rightarrow> string \<Rightarrow> state \<Rightarrow> (error + bool) \<times> state" where
  "isTokenDivine w a s =
     (case map_of (divineTokensCache s) a of
        Some v \<Rightarrow> (Inr v, s)
      | None \<Rightarrow>
          (case chain_isTokenDivine w a of
             Inr isDivine \<Rightarrow>
               (Inr isDivine,
                saveDivineTokensCache w
                  ((emit (Call_isTokenDivine a) s)
                     \<lparr>divineTokensCache := AList.update a isDivine (divineTokensCache s)\<rparr>))
           | Inl e \<Rightarrow> (Inr False, emit (Call_isTokenDivine a) s)))"

definition getTokenDecimals :: "env \<Rightarrow> string \<Rightarrow> state \<Rightarrow> (error + nat) \<times> state" where
  "getTokenDecimals w a s =
     (case chain_decimals w a of
        Inr d \<Rightarrow> (Inr d, emit (Call_decimals a) s)
      | Inl e \<Rightarrow> (Inr 18, emit (Call_decimals a) s))"

subsection \<open>The Offering listener\<close>

record offering =
  ev_mortal :: string
  ev_tokenAddress :: string
  ev_amount :: nat           \<comment> \<open>a \<open>uint256\<close>, delivered as a BigInt\<close>
  ev_txHash :: string

definition digitChar :: "nat \<Rightarrow> char" where
  "digitChar d = ''0123456789'' ! d"

fun toString :: "nat \<Rightarrow> string" where
  \<comment> \<open>\<open>amount.toString()\<close> of a non-negative BigInt\<close>
  "toString n =
     (if n < 10 then [digitChar n]
      else toString (n div 10) @ [digitChar (n mod 10)])"

declare toString.simps [simp del]

definition make_txData :: "env \<Rightarrow> offering \<Rightarrow> string \<Rightarrow> txData" where
  "make_txData w ev formatted =
     \<lparr>timestamp = Date_now w, from_address = ev_mortal ev,
      tokenAddress = ev_tokenAddress ev, amount = toString (ev_amount ev),
      formattedAmount = formatted, txHash = ev_txHash ev\<rparr>"

definition make_payload :: "env \<Rightarrow> offering \<Rightarrow> string \<Rightarrow> payload" where
  "make_payload w ev formatted =
     \<lparr>p_sender = ev_mortal ev, p_tokenAddress = ev_tokenAddress ev,
      p_amount = toString (ev_amount ev), p_formattedAmount = formatted,
      p_txHash = ev_txHash ev, p_timestamp = Date_toISOString w\<rparr>"

text \<open>
  The callback of \<open>zephyr.on('Offering', ...)\<close>. Every exception inside its \<open>try\<close> block
  ends the handler at the \<open>catch\<close>, which only logs; the callback returns nothing, so the
  model returns the state. The POST to the backend is the last statement of the \<open>try\<close>
  block: whether it succeeds decides only which line is logged, so the trace records that
  it was sent.
\<close>

definition onOffering :: "ethers \<Rightarrow> env \<Rightarrow> offering \<Rightarrow> state \<Rightarrow> state" where
  "onOffering L w ev s =
     (case getTokenDecimals w (ev_tokenAddress ev) s of
        (Inl e, s1) \<Rightarrow> s1
      | (Inr decimals, s1) \<Rightarrow>
          (case ethers_formatUnits L (ev_amount ev) decimals of
             Inl e \<Rightarrow> s1
           | Inr formatted \<Rightarrow>
               (case appendTransaction w (make_txData w ev formatted) s1 of
                  (Inl e, s2) \<Rightarrow> s2
                | (Inr u, s2) \<Rightarrow> emit (Post_token_received (make_payload w ev formatted)) s2)))"

text \<open>Offerings handled one after the other, each in the world it meets.\<close>

fun onOfferings :: "ethers \<Rightarrow> (env \<times> offering) list \<Rightarrow> state \<Rightarrow> state" where
  "onOfferings L [] s = s"
| "onOfferings L ((w, ev) # rest) s = onOfferings L rest (onOffering L w ev s)"

subsection \<open>JavaScript coercions used by the amount check\<close>

text \<open>
  \<open>!amount\<close> is \<open>ToBoolean\<close>, \<open>Number(amount)\<close> is \<open>ToNumber\<close>. On a string, \<open>ToNumber\<close>
  reads a \<open>StringNumericLiteral\<close>: white space is trimmed, the empty string is 0, then come
  \<open>0x\<close>, \<open>0o\<close> and \<open>0b\<close> integers without sign, and decimal literals with an optional sign,
  \<open>Infinity\<close> among them. The handlers look at a Number only through \<open>isNaN\<close> and
  \<open><= 0\<close>, so the rounding to a double is modelled where it changes the sign or the
  finiteness (underflow to 0 at \<open>2^-1075\<close>, overflow to infinity at \<open>2^1024 - 2^970\<close>)
  and the mantissa is left exact. Characters are the code units up to 255.
\<close>

definition isStrWhiteSpaceChar :: "char \<Rightarrow> bool" where
  "isStrWhiteSpaceChar c = ((of_char c :: nat) \<in> {9, 10, 11, 12, 13, 32, 160})"

definition trimString :: "string \<Rightarrow> string" where
  "trimString s = rev (dropWhile isStrWhiteSpaceChar (rev (dropWhile isStrWhiteSpaceChar s)))"

definition isDecimalDigit :: "char \<Rightarrow> bool" where
  "isDecimalDigit c = (48 \<le> (of_char c :: nat) \<and> (of_char c :: nat) \<le> 57)"

definition digitValue :: "char \<Rightarrow> nat option" where
  "digitValue c =
     (let n = of_char c :: nat in
      if 48 \<le> n \<and> n \<le> 57 then Some (n - 48)
      else if 65 \<le> n \<and> n \<le> 70 then Some (n - 55)
      else if 97 \<le> n \<and> n \<le> 102 then Some (n - 87)
      else None)"

fun digitsValue :: "nat \<Rightarrow> nat \<Rightarrow> string \<Rightarrow> nat option" where
  "digitsValue radix acc [] = Some acc"
| "digitsValue radix acc (c # cs) =
     (case digitValue c of
        None \<Rightarrow> None
      | Some d \<Rightarrow> if d < radix then digitsValue radix (radix * acc + d) cs else None)"

definition NonDecimalIntegerLiteral :: "string \<Rightarrow> nat option" where
  "NonDecimalIntegerLiteral s =
     (case s of
        c0 # x # ds \<Rightarrow>
          if c0 \<noteq> CHR ''0'' \<or> ds = [] then None
          else if x = CHR ''x'' \<or> x = CHR ''X'' then digitsValue 16 0 ds
          else if x = CHR ''o'' \<or> x = CHR ''O'' then digitsValue 8 0 ds
          else if x = CHR ''b'' \<or> x = CHR ''B'' then digitsValue 2 0 ds
          else None
      | _ \<Rightarrow> None)"

definition SignedInteger :: "string \<Rightarrow> int option" where
  "SignedInteger s =
     (let (neg, ds) = (case s of
                         c # t \<Rightarrow> if c = CHR ''-'' then (True, t)
                                  else if c = CHR ''+'' then (False, t) else (False, s)
                       | [] \<Rightarrow> (False, s)) in
      if ds = [] then None
      else (case digitsValue 10 0 ds of
              None \<Rightarrow> None
            | Some n \<Rightarrow> Some (if neg then - int n else int n)))"

definition pow10 :: "int \<Rightarrow> rat" where
  "pow10 e = (if 0 \<le> e then 10 ^ nat e else 1 / 10 ^ nat (- e))"

definition StrUnsignedDecimalLiteral :: "string \<Rightarrow> rat option" where
  "StrUnsignedDecimalLiteral s =
     (let ip = takeWhile isDecimalDigit s;
          r1 = dropWhile isDecimalDigit s;
          (fp, r2) = (case r1 of
                        c # t \<Rightarrow> if c = CHR ''.''
                                 then (takeWhile isDecimalDigit t, dropWhile isDecimalDigit t)
                                 else ([], r1)
                      | [] \<Rightarrow> ([], r1));
          ex = (case r2 of
                  [] \<Rightarrow> Some 0
                | c # t \<Rightarrow> if c = CHR ''e'' \<or> c = CHR ''E'' then SignedInteger t else None)
      in if ip = [] \<and> fp = [] then None
         else (case (digitsValue 10 0 ip, digitsValue 10 0 fp, ex) of
                 (Some i, Some f, Some e) \<Rightarrow>
                   Some ((of_nat i + of_nat f / 10 ^ length fp) * pow10 e)
               | _ \<Rightarrow> None))"

definition toDouble :: "rat \<Rightarrow> jsnum" where
  "toDouble v =
     (if \<bar>v\<bar> \<le> 1 / 2 ^ 1075 then Fin 0
      else if 2 ^ 1024 - 2 ^ 970 \<le> v then Infinity
      else if v \<le> - (2 ^ 1024 - 2 ^ 970) then NegInfinity
      else Fin v)"

definition StringToNumber :: "string \<Rightarrow> jsnum" where
  "StringToNumber s =
     (let t = trimString s in
      if t = [] then Fin 0
      else (case NonDecimalIntegerLiteral t of
              Some n \<Rightarrow> toDouble (of_nat n)
            | None \<Rightarrow>
                (let (neg, u) = (case t of
                                   c # r \<Rightarrow> if c = CHR ''-'' then (True, r)
                                            else if c = CHR ''+'' then (False, r) else (False, t)
                                 | [] \<Rightarrow> (False, t)) in
                 if u = ''Infinity'' then (if neg then NegInfinity else Infinity)
                 else (case StrUnsignedDecimalLiteral u of
                         None \<Rightarrow> NaN
                       | Some v \<Rightarrow> toDouble (if neg then - v else v)))))"

text \<open>
  An array or a plain object is first converted to a primitive, through \<open>valueOf\<close> and
  \<open>toString\<close>. A value parsed from JSON holds no function, so an own property \<open>valueOf\<close> or
  \<open>toString\<close> of an object is not callable and is skipped; the inherited \<open>valueOf\<close> returns
  the object itself, the inherited \<open>toString\<close> returns \<open>[object Object]\<close>. Hence an object
  converts to that string unless it has an own property \<open>toString\<close>, and then the
  conversion throws a TypeError. An array joins the strings of its elements with commas,
  with \<open>null\<close> and \<open>undefined\<close> as the empty string, and throws when the conversion of an
  element does. A Number element prints to a string that reads back as itself.
\<close>

definition TypeError_primitive :: error where
  \<comment> \<open>the message of the TypeError in Node\<close>
  "TypeError_primitive = ''Cannot convert object to primitive value''"

fun ToPrimitive_throws :: "jsval \<Rightarrow> bool" where
  "ToPrimitive_throws (JObject kvs) = (map_of kvs ''toString'' \<noteq> None)"
| "ToPrimitive_throws (JArray vs) = list_ex ToPrimitive_throws vs"
| "ToPrimitive_throws v = False"

fun ToNumber :: "jsval \<Rightarrow> error + jsnum" where
  "ToNumber JUndefined = Inr NaN"
| "ToNumber JNull = Inr (Fin 0)"
| "ToNumber (JBool b) = Inr (if b then Fin 1 else Fin 0)"
| "ToNumber (JNumber n) = Inr n"
| "ToNumber (JString s) = Inr (StringToNumber s)"
| "ToNumber (JObject kvs) =
     (if ToPrimitive_throws (JObject kvs) then Inl TypeError_primitive else Inr NaN)"
| "ToNumber (JArray []) = Inr (Fin 0)"
| "ToNumber (JArray [JUndefined]) = Inr (Fin 0)"
| "ToNumber (JArray [JNull]) = Inr (Fin 0)"
| "ToNumber (JArray [JBool b]) = Inr NaN"
| "ToNumber (JArray [v]) = ToNumber v"
| "ToNumber (JArray (v # v' # vs)) =
     (if ToPrimitive_throws (JArray (v # v' # vs)) then Inl TypeError_primitive else Inr NaN)"

fun ToBoolean :: "jsval \<Rightarrow> bool" where
  "ToBoolean JUndefined = False"
| "ToBoolean JNull = False"
| "ToBoolean (JBool b) = b"
| "ToBoolean (JNumber n) = (n \<noteq> NaN \<and> n \<noteq> Fin 0)"
| "ToBoolean (JString s) = (s \<noteq> [])"
| "ToBoolean (JArray vs) = True"
| "ToBoolean (JObject kvs) = True"

definition isNaN :: "jsnum \<Rightarrow> bool" where
  "isNaN n = (n = NaN)"

fun le_zero :: "jsnum \<Rightarrow> bool" where
  "le_zero NaN = False"
| "le_zero (Fin v) = (v \<le> 0)"
| "le_zero Infinity = False"
| "le_zero NegInfinity = True"

subsection \<open>The HTTP endpoints\<close>

datatype route =
    POST_bless_with_tokens
  | POST_bless_token
  | POST_unbless_token
  | GET_divine_tokens
  | GET_health
  | No_route
  \<comment> \<open>the route Express matches for the method and the path of a request\<close>

text \<open>
  The body fields are those of \<open>req.body\<close>, the object that \<open>express.json()\<close> has parsed
  (the empty object when the request carries none); a field that is missing is
  \<open>JUndefined\<close>.
\<close>

record request =
  req_route :: route
  x_api_key :: "string option"       \<comment> \<open>\<open>req.headers['x-api-key']\<close>, \<open>None\<close> when absent\<close>
  body_tokenAddress :: jsval
  body_recipient :: jsval
  body_amount :: jsval
  body_reference :: jsval

datatype json_body =
    Error_body string                                \<comment> \<open>\<open>{error}\<close>\<close>
  | Error_details string error                       \<comment> \<open>\<open>{error, details}\<close>\<close>
  | Blessing_body jsval jsval jsval string nat
      \<comment> \<open>\<open>{success: true, tokenAddress, recipient, amount, txHash, blockNumber}\<close>\<close>
  | Token_body string string nat
      \<comment> \<open>\<open>{success: true, tokenAddress, txHash, blockNumber}\<close>\<close>
  | Divine_tokens_body "string list"                 \<comment> \<open>\<open>{success: true, divineTokens}\<close>\<close>
  | Status_body string                               \<comment> \<open>\<open>{status}\<close>\<close>
  | Not_found_body                                   \<comment> \<open>the answer of Express when no route matches\<close>

record response =
  status :: nat
  json :: json_body

definition respond :: "nat \<Rightarrow> json_body \<Rightarrow> response" where
  "respond code b = \<lparr>status = code, json = b\<rparr>"

definition API_KEY :: "string option \<Rightarrow> string" where
  \<comment> \<open>\<open>process.env.API_KEY || 'default-secure-api-key'\<close>\<close>
  "API_KEY env_var =
     (case env_var of
        None \<Rightarrow> ''default-secure-api-key''
      | Some k \<Rightarrow> if k = [] then ''default-secure-api-key'' else k)"

definition validateApiKey ::
  "string \<Rightarrow> request \<Rightarrow> (state \<Rightarrow> response \<times> state) \<Rightarrow> state \<Rightarrow> response \<times> state" where
  "validateApiKey key req next s =
     (case x_api_key req of
        None \<Rightarrow> (respond 401 (Error_body ''Unauthorized: Invalid API key''), s)
      | Some providedApiKey \<Rightarrow>
          if providedApiKey = [] \<or> providedApiKey \<noteq> key
          then (respond 401 (Error_body ''Unauthorized: Invalid API key''), s)
          else next s)"

definition isAddress :: "ethers \<Rightarrow> jsval \<Rightarrow> string option" where
  \<comment> \<open>\<open>Some a\<close>: \<open>ethers.isAddress\<close> is true, and the value is the string \<open>a\<close>\<close>
  "isAddress L v =
     (case v of
        JString a \<Rightarrow> if ethers_isAddress L a then Some a else None
      | _ \<Rightarrow> None)"

definition invalid_amount :: "jsval \<Rightarrow> error + bool" where
  \<comment> \<open>\<open>!amount || isNaN(Number(amount)) || Number(amount) <= 0\<close>, evaluated from the left;
      \<open>Inl\<close> when \<open>Number(amount)\<close> throws\<close>
  "invalid_amount a =
     (if \<not> ToBoolean a then Inr True
      else (case ToNumber a of
              Inl e \<Rightarrow> Inl e
            | Inr n \<Rightarrow> Inr (isNaN n \<or> le_zero n)))"

definition post_bless_with_tokens ::
  "ethers \<Rightarrow> env \<Rightarrow> request \<Rightarrow> state \<Rightarrow> response \<times> state" where
  "post_bless_with_tokens L w req s =
     (case isAddress L (body_tokenAddress req) of
        None \<Rightarrow> (respond 400 (Error_body ''Invalid token address''), s)
      | Some token \<Rightarrow>
     (case isAddress L (body_recipient req) of
        None \<Rightarrow> (respond 400 (Error_body ''Invalid recipient address''), s)
      | Some recipient \<Rightarrow>
     (case invalid_amount (body_amount req) of
        Inl e \<Rightarrow> (respond 500 (Error_details ''Failed to bestow blessing'' e), s)
      | Inr invalid \<Rightarrow>
     if invalid
     then (respond 400 (Error_body ''Invalid amount''), s)
     else
     (case isTokenDivine w token s of
        (Inl e, s1) \<Rightarrow> (respond 500 (Error_details ''Failed to bestow blessing'' e), s1)
      | (Inr isDivine, s1) \<Rightarrow>
     if \<not> isDivine
     then (respond 400 (Error_body ''Token not blessed by Olympus''), s1)
     else
     (case getTokenDecimals w token s1 of
        (Inl e, s2) \<Rightarrow> (respond 500 (Error_details ''Failed to bestow blessing'' e), s2)
      | (Inr decimals, s2) \<Rightarrow>
     (case ethers_parseUnits L (body_amount req) decimals of
        Inl e \<Rightarrow> (respond 500 (Error_details ''Failed to bestow blessing'' e), s2)
      | Inr amountInWei \<Rightarrow>
     (let s3 = emit (Send_blessWithTokens token recipient amountInWei (body_reference req)) s2 in
      case chain_blessWithTokens w token recipient amountInWei (body_reference req) of
        Inl e \<Rightarrow> (respond 500 (Error_details ''Failed to bestow blessing'' e), s3)
      | Inr r \<Rightarrow>
          (respond 200
             (Blessing_body (body_tokenAddress req) (body_recipient req) (body_amount req)
                (hash r) (blockNumber r)), s3))))))))"

definition post_bless_token :: "ethers \<Rightarrow> env \<Rightarrow> request \<Rightarrow> state \<Rightarrow> response \<times> state" where
  "post_bless_token L w req s =
     (case isAddress L (body_tokenAddress req) of
        None \<Rightarrow> (respond 400 (Error_body ''Invalid token address''), s)
      | Some token \<Rightarrow>
     (case isTokenDivine w token s of
        (Inl e, s1) \<Rightarrow> (respond 500 (Error_details ''Failed to bless token'' e), s1)
      | (Inr isDivine, s1) \<Rightarrow>
     if isDivine
     then (respond 400 (Error_body ''Token already blessed''), s1)
     else
     (let s2 = emit (Send_blessToken token) s1 in
      case chain_blessToken w token of
        Inl e \<Rightarrow> (respond 500 (Error_details ''Failed to bless token'' e), s2)
      | Inr r \<Rightarrow>
          (respond 200 (Token_body token (hash r) (blockNumber r)),
           saveDivineTokensCache w
             (s2\<lparr>divineTokensCache := AList.update token True (divineTokensCache s2)\<rparr>)))))"

definition post_unbless_token :: "ethers \<Rightarrow> env \<Rightarrow> request \<Rightarrow> state \<Rightarrow> response \<times> state" where
  "post_unbless_token L w req s =
     (case isAddress L (body_tokenAddress req) of
        None \<Rightarrow> (respond 400 (Error_body ''Invalid token address''), s)
      | Some token \<Rightarrow>
     (case isTokenDivine w token s of
        (Inl e, s1) \<Rightarrow> (respond 500 (Error_details ''Failed to unbless token'' e), s1)
      | (Inr isDivine, s1) \<Rightarrow>
     if \<not> isDivine
     then (respond 400 (Error_body ''Token not blessed''), s1)
     else
     (let s2 = emit (Send_unBlessToken token) s1 in
      case chain_unBlessToken w token of
        Inl e \<Rightarrow> (respond 500 (Error_details ''Failed to unbless token'' e), s2)
      | Inr r \<Rightarrow>
          (respond 200 (Token_body token (hash r) (blockNumber r)),
           saveDivineTokensCache w
             (s2\<lparr>divineTokensCache := AList.delete token (divineTokensCache s2)\<rparr>)))))"

definition divine_tokens :: "(string \<times> bool) list \<Rightarrow> string list" where
  \<comment> \<open>\<open>Object.keys(divineTokensCache).filter(token => divineTokensCache[token])\<close>\<close>
  "divine_tokens c = filter (\<lambda>token. map_of c token = Some True) (map fst c)"

definition get_divine_tokens :: "state \<Rightarrow> response \<times> state" where
  "get_divine_tokens s =
     (respond 200 (Divine_tokens_body (divine_tokens (divineTokensCache s))), s)"

definition get_health :: "state \<Rightarrow> response \<times> state" where
  "get_health s = (respond 200 (Status_body ''Olympus is in harmony''), s)"

text \<open>
  A request that has passed \<open>helmet\<close>, \<open>express.json\<close> and the rate limiter reaches its
  route; the four routes registered with \<open>validateApiKey\<close> run it before their handler.
\<close>

definition app :: "ethers \<Rightarrow> string option \<Rightarrow> env \<Rightarrow> request \<Rightarrow> state \<Rightarrow> response \<times> state" where
  "app L env_var w req s =
     (case req_route req of
        POST_bless_with_tokens \<Rightarrow>
          validateApiKey (API_KEY env_var) req (post_bless_with_tokens L w req) s
      | POST_bless_token \<Rightarrow>
          validateApiKey (API_KEY env_var) req (post_bless_token L w req) s
      | POST_unbless_token \<Rightarrow>
          validateApiKey (API_KEY env_var) req (post_unbless_token L w req) s
      | GET_divine_tokens \<Rightarrow>
          validateApiKey (API_KEY env_var) req get_divine_tokens s
      | GET_health \<Rightarrow> get_health s
      | No_route \<Rightarrow> (respond 404 Not_found_body, s))"

definition authenticated :: "route \<Rightarrow> bool" where
  "authenticated r =
     (r = POST_bless_with_tokens \<or> r = POST_bless_token \<or> r = POST_unbless_token
      \<or> r = GET_divine_tokens)"

definition handler :: "ethers \<Rightarrow> env \<Rightarrow> request \<Rightarrow> state \<Rightarrow> response \<times> state" where
  \<comment> \<open>the handler registered for the route of a request, without its middleware\<close>
  "handler L w req =
     (case req_route req of
        POST_bless_with_tokens \<Rightarrow> post_bless_with_tokens L w req
      | POST_bless_token \<Rightarrow> post_bless_token L w req
      | POST_unbless_token \<Rightarrow> post_unbless_token L w req
      | GET_divine_tokens \<Rightarrow> get_divine_tokens
      | GET_health \<Rightarrow> get_health
      | No_route \<Rightarrow> (\<lambda>s. (respond 404 Not_found_body, s)))"

subsection \<open>The older copy of the service embedded after it in index.js\<close>

text \<open>
  The text that follows the service in \<open>index.js\<close> is an earlier copy of it, without the
  transaction database and without the cache file. Its \<open>isTokenDivine\<close> does not persist,
  and its \<open>POST /bless-token\<close> handler deletes the cache entry of the token where the
  service above sets it (the comment there: "Instead of deleting from the cache, add the
  token as divine").
\<close>

definition isTokenDivine_embedded :: "env \<Rightarrow> string \<Rightarrow> state \<Rightarrow> (error + bool) \<times> state" where
  "isTokenDivine_embedded w a s =
     (case map_of (divineTokensCache s) a of
        Some v \<Rightarrow> (Inr v, s)
      | None \<Rightarrow>
          (case chain_isTokenDivine w a of
             Inr isDivine \<Rightarrow>
               (Inr isDivine,
                (emit (Call_isTokenDivine a) s)
                  \<lparr>divineTokensCache := AList.update a isDivine (divineTokensCache s)\<rparr>)
           | Inl e \<Rightarrow> (Inr False, emit (Call_isTokenDivine a) s)))"

definition post_bless_token_embedded ::
  "ethers \<Rightarrow> env \<Rightarrow> request \<Rightarrow> state \<Rightarrow> response \<times> state" where
  "post_bless_token_embedded L w req s =
     (case isAddress L (body_tokenAddress req) of
        None \<Rightarrow> (respond 400 (Error_body ''Invalid token address''), s)
      | Some token \<Rightarrow>
     (case isTokenDivine_embedded w token s of
        (Inl e, s1) \<Rightarrow> (respond 500 (Error_details ''Failed to bless token'' e), s1)
      | (Inr isDivine, s1) \<Rightarrow>
     if isDivine
     then (respond 400 (Error_body ''Token already blessed''), s1)
     else
     (let s2 = emit (Send_blessToken token) s1 in
      case chain_blessToken w token of
        Inl e \<Rightarrow> (respond 500 (Error_details ''Failed to bless token'' e), s2)
      | Inr r \<Rightarrow>
          (respond 200 (Token_body token (hash r) (blockNumber r)),
           s2\<lparr>divineTokensCache := AList.delete token (divineTokensCache s2)\<rparr>))))"

subsection \<open>Start-up, and vocabulary for the statements\<close>

definition startup :: "txData list json_file \<Rightarrow> (string \<times> bool) list json_file \<Rightarrow> state" where
  \<comment> \<open>\<open>let divineTokensCache = loadDivineTokensCache()\<close> on the files found at start\<close>
  "startup db_file c_file =
     \<lparr>trdb = db_file, cache_file = c_file,
      divineTokensCache = loadDivineTokensCache c_file, trace = []\<rparr>"

fun isTokenDivine_calls :: "(env \<times> string) list \<Rightarrow> state \<Rightarrow> state" where
  \<comment> \<open>a run of \<open>isTokenDivine\<close> calls, for any tokens, in any worlds\<close>
  "isTokenDivine_calls [] s = s"
| "isTokenDivine_calls ((w, a) # rest) s = isTokenDivine_calls rest (snd (isTokenDivine w a s))"

definition decimals_for :: "env \<Rightarrow> string \<Rightarrow> nat" where
  \<comment> \<open>what \<open>getTokenDecimals\<close> resolves to\<close>
  "decimals_for w a = (case chain_decimals w a of Inr d \<Rightarrow> d | Inl e \<Rightarrow> 18)"

definition record_of :: "ethers \<Rightarrow> env \<Rightarrow> offering \<Rightarrow> txData option" where
  \<comment> \<open>the record the listener builds for an offering, \<open>None\<close> when \<open>formatUnits\<close> throws\<close>
  "record_of L w ev =
     (case ethers_formatUnits L (ev_amount ev) (decimals_for w (ev_tokenAddress ev)) of
        Inl e \<Rightarrow> None
      | Inr formatted \<Rightarrow> Some (make_txData w ev formatted))"

definition payload_of :: "ethers \<Rightarrow> env \<Rightarrow> offering \<Rightarrow> payload option" where
  "payload_of L w ev =
     (case ethers_formatUnits L (ev_amount ev) (decimals_for w (ev_tokenAddress ev)) of
        Inl e \<Rightarrow> None
      | Inr formatted \<Rightarrow> Some (make_payload w ev formatted))"

definition storable :: "ethers \<Rightarrow> env \<times> offering \<Rightarrow> bool" where
  \<comment> \<open>the amount formats and the write of \<open>./trdb.json\<close> goes through\<close>
  "storable L p = (record_of L (fst p) (snd p) \<noteq> None \<and> write_trdb (fst p) = Written)"

subsection \<open>A concrete deployment for the examples\<close>

text \<open>
  Stand-ins for the three \<open>ethers\<close> functions, used only at the concrete inputs of the
  examples below: the lower-case \<open>0x\<close> addresses of 40 hex digits (which \<open>ethers.isAddress\<close>
  accepts without looking at a checksum), the decimal print of an amount (it throws beyond
  80 decimals, as the fixed-point format of the library does), and the parse of a whole
  number of units.
\<close>

definition demo_isAddress :: "string \<Rightarrow> bool" where
  "demo_isAddress a =
     (case a of
        c0 # c1 # ds \<Rightarrow>
          c0 = CHR ''0'' \<and> c1 = CHR ''x'' \<and> length ds = 40 \<and>
          list_all (\<lambda>c. isDecimalDigit c \<or> (97 \<le> (of_char c :: nat) \<and> (of_char c :: nat) \<le> 102)) ds
      | _ \<Rightarrow> False)"

definition demo_formatUnits :: "nat \<Rightarrow> nat \<Rightarrow> error + string" where
  "demo_formatUnits v d =
     (if 80 < d then Inl ''invalid FixedNumber decimals (too large)''
      else
        (let f = toString (v mod 10 ^ d);
             padded = replicate (d - length f) (CHR ''0'') @ f;
             stripped = rev (dropWhile (\<lambda>c. c = CHR ''0'') (rev padded))
         in Inr (toString (v div 10 ^ d) @ ''.'' @ (if stripped = [] then ''0'' else stripped))))"

definition demo_parseUnits :: "jsval \<Rightarrow> nat \<Rightarrow> error + int" where
  "demo_parseUnits a d =
     (case a of
        JString s \<Rightarrow>
          (case digitsValue 10 0 s of
             Some n \<Rightarrow> if s = [] then Inl ''invalid FixedNumber string value''
                       else Inr (int n * 10 ^ d)
           | None \<Rightarrow> Inl ''invalid FixedNumber string value'')
      | _ \<Rightarrow> Inl ''value must be a string'')"

definition demo_ethers :: ethers where
  "demo_ethers =
     \<lparr>ethers_isAddress = demo_isAddress, ethers_formatUnits = demo_formatUnits,
      ethers_parseUnits = demo_parseUnits\<rparr>"

definition demo_receipt :: receipt where
  "demo_receipt = \<lparr>hash = ''0xfeed'', blockNumber = 7\<rparr>"

definition demo_env :: "(error + bool) \<Rightarrow> env" where
  \<comment> \<open>a world where everything works; the argument is the answer of the \<open>isTokenDivine\<close> view\<close>
  "demo_env verdict =
     \<lparr>chain_isTokenDivine = (\<lambda>a. verdict),
      chain_decimals = (\<lambda>a. Inr 18),
      chain_blessWithTokens = (\<lambda>a r n ref. Inr demo_receipt),
      chain_blessToken = (\<lambda>a. Inr demo_receipt),
      chain_unBlessToken = (\<lambda>a. Inr demo_receipt),
      write_trdb = Written,
      write_cache = Written,
      Date_now = 1700000000000,
      Date_toISOString = ''2023-11-14T22:13:20.000Z''\<rparr>"

definition many_decimals_env :: env where
  \<comment> \<open>the same world, for a token whose \<open>decimals()\<close> answers 255\<close>
  "many_decimals_env = (demo_env (Inr True))\<lparr>chain_decimals := (\<lambda>a. Inr 255)\<rparr>"

definition tokenA :: string where
  "tokenA = ''0xaaaaaaaaaaaaaaaaaaaaaaaaaaaaaaaaaaaaaaaa''"

definition mortalB :: string where
  "mortalB = ''0xbbbbbbbbbbbbbbbbbbbbbbbbbbbbbbbbbbbbbbbb''"

definition fresh :: state where
  "fresh = startup Missing Missing"

definition offering1 :: offering where
  "offering1 =
     \<lparr>ev_mortal = mortalB, ev_tokenAddress = tokenA,
      ev_amount = 1000000000000000000, ev_txHash = ''0xhash1''\<rparr>"

definition offering2 :: offering where
  "offering2 =
     \<lparr>ev_mortal = mortalB, ev_tokenAddress = tokenA,
      ev_amount = 2500000000000000000, ev_txHash = ''0xhash2''\<rparr>"

definition demo_request :: "route \<Rightarrow> string option \<Rightarrow> jsval \<Rightarrow> request" where
  \<comment> \<open>a request for \<open>tokenA\<close> and \<open>mortalB\<close> with the given route, key header and amount\<close>
  "demo_request r k a =
     \<lparr>req_route = r, x_api_key = k, body_tokenAddress = JString tokenA,
      body_recipient = JString mortalB, body_amount = a, body_reference = JString ''ref-1''\<rparr>"

section \<open>Properties\<close>

subsection \<open>Auxiliary facts\<close>

lemma isTokenDivine_hit:
  "map_of (divineTokensCache s) a = Some v \<Longrightarrow> isTokenDivine w a s = (Inr v, s)"
  by (simp add: isTokenDivine_def)

lemma isTokenDivine_miss_ok:
  assumes "map_of (divineTokensCache s) a = None" and "chain_isTokenDivine w a = Inr v"
  shows "isTokenDivine w a s =
           (Inr v, saveDivineTokensCache w
                     ((emit (Call_isTokenDivine a) s)
                        \<lparr>divineTokensCache := AList.update a v (divineTokensCache s)\<rparr>))"
  using assms by (simp add: isTokenDivine_def)

lemma isTokenDivine_miss_fail:
  assumes "map_of (divineTokensCache s) a = None" and "chain_isTokenDivine w a = Inl e"
  shows "isTokenDivine w a s = (Inr False, emit (Call_isTokenDivine a) s)"
  using assms by (simp add: isTokenDivine_def)

lemma saveDivineTokensCache_fields [simp]:
  "divineTokensCache (saveDivineTokensCache w s) = divineTokensCache s"
  "trace (saveDivineTokensCache w s) = trace s"
  "trdb (saveDivineTokensCache w s) = trdb s"
  by (simp_all add: saveDivineTokensCache_def split: fs_write.splits)

lemma saveDivineTokensCache_written:
  "write_cache w = Written \<Longrightarrow>
   cache_file (saveDivineTokensCache w s) = Parsed (divineTokensCache s)"
  by (simp add: saveDivineTokensCache_def)

lemma emit_fields [simp]:
  "divineTokensCache (emit e s) = divineTokensCache s"
  "trace (emit e s) = trace s @ [e]"
  "trdb (emit e s) = trdb s"
  "cache_file (emit e s) = cache_file s"
  by (simp_all add: emit_def)

lemma isTokenDivine_keeps_entry:
  assumes "map_of (divineTokensCache s) a = Some v"
  shows "map_of (divineTokensCache (snd (isTokenDivine w b s))) a = Some v"
proof (cases "map_of (divineTokensCache s) b")
  case (Some u)
  then show ?thesis using assms by (simp add: isTokenDivine_hit)
next
  case None
  then have ne: "b \<noteq> a" using assms by auto
  show ?thesis
  proof (cases "chain_isTokenDivine w b")
    case (Inl e)
    then show ?thesis using None assms by (simp add: isTokenDivine_miss_fail)
  next
    case (Inr u)
    then show ?thesis using None assms ne
      by (simp add: isTokenDivine_miss_ok update_conv')
  qed
qed

lemma isTokenDivine_calls_keep_entry:
  "map_of (divineTokensCache s) a = Some v \<Longrightarrow>
   map_of (divineTokensCache (isTokenDivine_calls calls s)) a = Some v"
proof (induction calls arbitrary: s)
  case Nil
  then show ?case by simp
next
  case (Cons c calls)
  obtain w b where c: "c = (w, b)" by (cases c)
  from Cons.prems have "map_of (divineTokensCache (snd (isTokenDivine w b s))) a = Some v"
    by (rule isTokenDivine_keeps_entry)
  then show ?case using Cons.IH c by simp
qed

lemma fresh_simps:
  "divineTokensCache fresh = []" "trace fresh = []" "trdb fresh = Missing"
  "cache_file fresh = Missing"
  by (simp_all add: fresh_def startup_def loadDivineTokensCache_def)

lemma demo_env_simps:
  "chain_isTokenDivine (demo_env v) = (\<lambda>a. v)"
  "chain_decimals (demo_env v) = (\<lambda>a. Inr 18)"
  "chain_blessToken (demo_env v) = (\<lambda>a. Inr demo_receipt)"
  "chain_unBlessToken (demo_env v) = (\<lambda>a. Inr demo_receipt)"
  "chain_blessWithTokens (demo_env v) = (\<lambda>a r n ref. Inr demo_receipt)"
  "write_trdb (demo_env v) = Written"
  "write_cache (demo_env v) = Written"
  "Date_now (demo_env v) = 1700000000000"
  "Date_toISOString (demo_env v) = ''2023-11-14T22:13:20.000Z''"
  by (simp_all add: demo_env_def)

subsection \<open>The eligibility cache\<close>

text \<open>
  C3. \<open>isTokenDivine\<close> is a read-through cache. For a token that is not a key of
  \<open>divineTokensCache\<close>, the call makes exactly one chain call, the \<open>isTokenDivine\<close> view for
  that token. When the view answers \<open>v\<close>, the call returns \<open>v\<close>, stores \<open>v\<close> under the token
  and, when the write goes through, the cache file holds the new cache. After that, and
  after any further run of \<open>isTokenDivine\<close> calls for any tokens, a call for the same token
  returns \<open>v\<close> and leaves the whole state, the trace of chain calls included, as it was.
\<close>

theorem isTokenDivine_read_through:
  assumes miss: "map_of (divineTokensCache s) a = None"
  shows "chain_calls (snd (isTokenDivine w a s)) = chain_calls s @ [Call_isTokenDivine a] \<and>
         (\<forall>v. chain_isTokenDivine w a = Inr v \<longrightarrow>
            fst (isTokenDivine w a s) = Inr v \<and>
            map_of (divineTokensCache (snd (isTokenDivine w a s))) a = Some v \<and>
            (write_cache w = Written \<longrightarrow>
               cache_file (snd (isTokenDivine w a s)) =
                 Parsed (divineTokensCache (snd (isTokenDivine w a s)))) \<and>
            (\<forall>calls w'.
               isTokenDivine w' a (isTokenDivine_calls calls (snd (isTokenDivine w a s))) =
                 (Inr v, isTokenDivine_calls calls (snd (isTokenDivine w a s)))))"
proof (intro conjI allI impI)
  show "chain_calls (snd (isTokenDivine w a s)) = chain_calls s @ [Call_isTokenDivine a]"
    using miss by (cases "chain_isTokenDivine w a")
      (simp_all add: isTokenDivine_miss_ok isTokenDivine_miss_fail chain_calls_def)
next
  fix v assume ok: "chain_isTokenDivine w a = Inr v"
  show "fst (isTokenDivine w a s) = Inr v"
    using miss ok by (simp add: isTokenDivine_miss_ok)
  show stored: "map_of (divineTokensCache (snd (isTokenDivine w a s))) a = Some v"
    using miss ok by (simp add: isTokenDivine_miss_ok update_conv')
  {
    assume "write_cache w = Written"
    then show "cache_file (snd (isTokenDivine w a s)) =
                 Parsed (divineTokensCache (snd (isTokenDivine w a s)))"
      using miss ok by (simp add: isTokenDivine_miss_ok saveDivineTokensCache_written)
  }
  fix calls w'
  from stored
  have "map_of (divineTokensCache (isTokenDivine_calls calls (snd (isTokenDivine w a s)))) a
          = Some v"
    by (rule isTokenDivine_calls_keep_entry)
  then show "isTokenDivine w' a (isTokenDivine_calls calls (snd (isTokenDivine w a s))) =
               (Inr v, isTokenDivine_calls calls (snd (isTokenDivine w a s)))"
    by (rule isTokenDivine_hit)
qed

theorem isTokenDivine_read_through_witness:
  "map_of (divineTokensCache fresh) tokenA = None \<and>
   chain_isTokenDivine (demo_env (Inr True)) tokenA = Inr True \<and>
   write_cache (demo_env (Inr True)) = Written \<and>
   chain_calls (snd (isTokenDivine (demo_env (Inr True)) tokenA fresh)) =
     [Call_isTokenDivine tokenA] \<and>
   fst (isTokenDivine (demo_env (Inr True)) tokenA fresh) = Inr True \<and>
   cache_file (snd (isTokenDivine (demo_env (Inr True)) tokenA fresh)) =
     Parsed [(tokenA, True)] \<and>
   isTokenDivine (demo_env (Inl ''network down'')) tokenA
       (isTokenDivine_calls [(demo_env (Inr False), mortalB)]
          (snd (isTokenDivine (demo_env (Inr True)) tokenA fresh))) =
     (Inr True,
      isTokenDivine_calls [(demo_env (Inr False), mortalB)]
          (snd (isTokenDivine (demo_env (Inr True)) tokenA fresh)))"
proof -
  have miss: "map_of (divineTokensCache fresh) tokenA = None"
    by (simp add: fresh_simps)
  have ok: "chain_isTokenDivine (demo_env (Inr True)) tokenA = Inr True"
    by (simp add: demo_env_simps)
  have wr: "write_cache (demo_env (Inr True)) = Written"
    by (simp add: demo_env_simps)
  have run: "isTokenDivine (demo_env (Inr True)) tokenA fresh =
               (Inr True, fresh\<lparr>cache_file := Parsed [(tokenA, True)],
                               divineTokensCache := [(tokenA, True)],
                               trace := [Call_isTokenDivine tokenA]\<rparr>)"
    by (simp add: isTokenDivine_def fresh_simps demo_env_simps saveDivineTokensCache_def
        emit_def)
  note inst = isTokenDivine_read_through [OF miss, of "demo_env (Inr True)"]
  from inst have calls:
    "chain_calls (snd (isTokenDivine (demo_env (Inr True)) tokenA fresh)) =
       chain_calls fresh @ [Call_isTokenDivine tokenA]"
    by (rule conjunct1)
  from inst ok have res: "fst (isTokenDivine (demo_env (Inr True)) tokenA fresh) = Inr True"
    by blast
  from inst ok wr have persisted:
    "cache_file (snd (isTokenDivine (demo_env (Inr True)) tokenA fresh)) =
       Parsed (divineTokensCache (snd (isTokenDivine (demo_env (Inr True)) tokenA fresh)))"
    by blast
  from inst ok have again:
    "isTokenDivine (demo_env (Inl ''network down'')) tokenA
       (isTokenDivine_calls [(demo_env (Inr False), mortalB)]
          (snd (isTokenDivine (demo_env (Inr True)) tokenA fresh))) =
     (Inr True,
      isTokenDivine_calls [(demo_env (Inr False), mortalB)]
          (snd (isTokenDivine (demo_env (Inr True)) tokenA fresh)))"
    by blast
  have "chain_calls fresh = []" by (simp add: chain_calls_def fresh_simps)
  with calls have calls': "chain_calls (snd (isTokenDivine (demo_env (Inr True)) tokenA fresh)) =
       [Call_isTokenDivine tokenA]" by simp
  from persisted have persisted': "cache_file (snd (isTokenDivine (demo_env (Inr True)) tokenA fresh)) =
       Parsed [(tokenA, True)]" by (simp add: run)
  from miss ok wr calls' res persisted' again show ?thesis by blast
qed


text \<open>
  C6. When the token is not in the cache and the chain view call fails, \<open>isTokenDivine\<close>
  returns \<open>false\<close>: the failure is not thrown to the caller, and the token is not reported
  as divine.
\<close>

theorem isTokenDivine_fail_closed:
  assumes miss: "map_of (divineTokensCache s) a = None"
    and failed: "chain_isTokenDivine w a = Inl e"
  shows "fst (isTokenDivine w a s) = Inr False"
  using miss failed by (simp add: isTokenDivine_miss_fail)

theorem isTokenDivine_fail_closed_witness:
  "map_of (divineTokensCache fresh) tokenA = None \<and>
   chain_isTokenDivine (demo_env (Inl ''network down'')) tokenA = Inl ''network down'' \<and>
   fst (isTokenDivine (demo_env (Inl ''network down'')) tokenA fresh) = Inr False"
proof -
  have miss: "map_of (divineTokensCache fresh) tokenA = None"
    by (simp add: fresh_simps)
  have failed: "chain_isTokenDivine (demo_env (Inl ''network down'')) tokenA = Inl ''network down''"
    by (simp add: demo_env_simps)
  from miss failed isTokenDivine_fail_closed [OF miss failed] show ?thesis by simp
qed

text \<open>
  C9. A failed view call caches nothing: the in-memory cache and the cache file (and the
  transaction database) are as before the call, so the next \<open>isTokenDivine\<close> call for the
  token makes the view call again and returns what the chain says then, \<open>false\<close> if it
  fails again.
\<close>

theorem isTokenDivine_failure_not_cached:
  assumes miss: "map_of (divineTokensCache s) a = None"
    and failed: "chain_isTokenDivine w a = Inl e"
  shows "divineTokensCache (snd (isTokenDivine w a s)) = divineTokensCache s \<and>
         cache_file (snd (isTokenDivine w a s)) = cache_file s \<and>
         trdb (snd (isTokenDivine w a s)) = trdb s \<and>
         chain_calls (snd (isTokenDivine w' a (snd (isTokenDivine w a s)))) =
           chain_calls (snd (isTokenDivine w a s)) @ [Call_isTokenDivine a] \<and>
         fst (isTokenDivine w' a (snd (isTokenDivine w a s))) =
           (case chain_isTokenDivine w' a of Inr v \<Rightarrow> Inr v | Inl e' \<Rightarrow> Inr False)"
proof -
  have run: "isTokenDivine w a s = (Inr False, emit (Call_isTokenDivine a) s)"
    using miss failed by (rule isTokenDivine_miss_fail)
  have miss': "map_of (divineTokensCache (emit (Call_isTokenDivine a) s)) a = None"
    using miss by simp
  have again: "chain_calls (snd (isTokenDivine w' a (emit (Call_isTokenDivine a) s))) =
                 chain_calls (emit (Call_isTokenDivine a) s) @ [Call_isTokenDivine a]"
    using miss' by (cases "chain_isTokenDivine w' a")
      (simp_all add: isTokenDivine_miss_ok isTokenDivine_miss_fail chain_calls_def)
  have res: "fst (isTokenDivine w' a (emit (Call_isTokenDivine a) s)) =
               (case chain_isTokenDivine w' a of Inr v \<Rightarrow> Inr v | Inl e' \<Rightarrow> Inr False)"
    using miss' by (cases "chain_isTokenDivine w' a")
      (simp_all add: isTokenDivine_miss_ok isTokenDivine_miss_fail)
  show ?thesis using again res by (simp add: run)
qed

theorem isTokenDivine_failure_not_cached_witness:
  "map_of (divineTokensCache fresh) tokenA = None \<and>
   chain_isTokenDivine (demo_env (Inl ''network down'')) tokenA = Inl ''network down'' \<and>
   divineTokensCache (snd (isTokenDivine (demo_env (Inl ''network down'')) tokenA fresh)) = [] \<and>
   cache_file (snd (isTokenDivine (demo_env (Inl ''network down'')) tokenA fresh)) = Missing \<and>
   chain_calls (snd (isTokenDivine (demo_env (Inr True)) tokenA
                  (snd (isTokenDivine (demo_env (Inl ''network down'')) tokenA fresh)))) =
     [Call_isTokenDivine tokenA, Call_isTokenDivine tokenA] \<and>
   fst (isTokenDivine (demo_env (Inr True)) tokenA
          (snd (isTokenDivine (demo_env (Inl ''network down'')) tokenA fresh))) = Inr True"
proof -
  have miss: "map_of (divineTokensCache fresh) tokenA = None"
    by (simp add: fresh_simps)
  have failed: "chain_isTokenDivine (demo_env (Inl ''network down'')) tokenA = Inl ''network down''"
    by (simp add: demo_env_simps)
  have first: "chain_calls (snd (isTokenDivine (demo_env (Inl ''network down'')) tokenA fresh)) =
                 [Call_isTokenDivine tokenA]"
    by (simp add: isTokenDivine_miss_fail [OF miss failed] chain_calls_def fresh_simps)
  from isTokenDivine_failure_not_cached [OF miss failed, of "demo_env (Inr True)"] miss failed first
  show ?thesis by (simp add: fresh_simps demo_env_simps)
qed

lemma API_KEY_nonempty: "API_KEY env_var \<noteq> []"
  by (simp add: API_KEY_def split: option.splits)

lemma validateApiKey_pass:
  "x_api_key req = Some (API_KEY env_var) \<Longrightarrow>
   validateApiKey (API_KEY env_var) req next s = next s"
  by (simp add: validateApiKey_def API_KEY_nonempty)

lemma set_divine_tokens: "set (divine_tokens c) = {k. map_of c k = Some True}"
  by (auto simp: divine_tokens_def dest: map_of_SomeD intro: rev_image_eqI)

text \<open>
  C10. Negative verdicts are cached. When the view answers \<open>false\<close> for a token that is not
  in the cache, \<open>false\<close> is returned, stored and, when the write goes through, persisted;
  every later call returns \<open>false\<close> and leaves the state, the trace included, untouched.
  The token is then a key of the cache but not an element of the list of
  \<open>GET /divine-tokens\<close>, whose elements are exactly the keys with cached value \<open>true\<close>.
\<close>

theorem negative_verdict_cached_and_not_listed:
  assumes miss: "map_of (divineTokensCache s) a = None"
    and verdict: "chain_isTokenDivine w a = Inr False"
  shows "fst (isTokenDivine w a s) = Inr False \<and>
         map_of (divineTokensCache (snd (isTokenDivine w a s))) a = Some False \<and>
         (write_cache w = Written \<longrightarrow>
            cache_file (snd (isTokenDivine w a s)) =
              Parsed (divineTokensCache (snd (isTokenDivine w a s)))) \<and>
         (\<forall>w'. isTokenDivine w' a (snd (isTokenDivine w a s)) =
                 (Inr False, snd (isTokenDivine w a s))) \<and>
         a \<in> set (map fst (divineTokensCache (snd (isTokenDivine w a s)))) \<and>
         a \<notin> set (divine_tokens (divineTokensCache (snd (isTokenDivine w a s)))) \<and>
         (\<forall>t. set (divine_tokens (divineTokensCache t)) =
                {k. map_of (divineTokensCache t) k = Some True}) \<and>
         (\<forall>L env_var w' req t.
            req_route req = GET_divine_tokens \<and> x_api_key req = Some (API_KEY env_var) \<longrightarrow>
            app L env_var w' req t =
              (respond 200 (Divine_tokens_body (divine_tokens (divineTokensCache t))), t))"
proof -
  let ?s' = "snd (isTokenDivine w a s)"
  have res: "fst (isTokenDivine w a s) = Inr False"
    by (simp add: isTokenDivine_miss_ok [OF miss verdict])
  have stored: "map_of (divineTokensCache ?s') a = Some False"
    by (simp add: isTokenDivine_miss_ok [OF miss verdict] update_conv')
  have persisted: "write_cache w = Written \<longrightarrow>
                     cache_file ?s' = Parsed (divineTokensCache ?s')"
    by (simp add: isTokenDivine_miss_ok [OF miss verdict] saveDivineTokensCache_written)
  have again: "\<forall>w'. isTokenDivine w' a ?s' = (Inr False, ?s')"
    using stored by (simp add: isTokenDivine_hit)
  have key: "a \<in> set (map fst (divineTokensCache ?s'))"
    using stored by (auto dest: map_of_SomeD intro: rev_image_eqI)
  have unlisted: "a \<notin> set (divine_tokens (divineTokensCache ?s'))"
    using stored by (simp add: set_divine_tokens)
  have exact: "\<forall>t. set (divine_tokens (divineTokensCache t)) =
                  {k. map_of (divineTokensCache t) k = Some True}"
    by (simp add: set_divine_tokens)
  have endpoint: "\<forall>L env_var w' req t.
            req_route req = GET_divine_tokens \<and> x_api_key req = Some (API_KEY env_var) \<longrightarrow>
            app L env_var w' req t =
              (respond 200 (Divine_tokens_body (divine_tokens (divineTokensCache t))), t)"
    by (simp add: app_def validateApiKey_pass get_divine_tokens_def)
  from res stored persisted again key unlisted exact endpoint show ?thesis by blast
qed

theorem negative_verdict_cached_and_not_listed_witness:
  "map_of (divineTokensCache fresh) tokenA = None \<and>
   chain_isTokenDivine (demo_env (Inr False)) tokenA = Inr False \<and>
   write_cache (demo_env (Inr False)) = Written \<and>
   req_route (demo_request GET_divine_tokens (Some ''default-secure-api-key'') JUndefined)
     = GET_divine_tokens \<and>
   x_api_key (demo_request GET_divine_tokens (Some ''default-secure-api-key'') JUndefined)
     = Some (API_KEY None) \<and>
   divineTokensCache (snd (isTokenDivine (demo_env (Inr False)) tokenA fresh)) =
     [(tokenA, False)] \<and>
   cache_file (snd (isTokenDivine (demo_env (Inr False)) tokenA fresh)) =
     Parsed [(tokenA, False)] \<and>
   isTokenDivine (demo_env (Inr True)) tokenA
       (snd (isTokenDivine (demo_env (Inr False)) tokenA fresh)) =
     (Inr False, snd (isTokenDivine (demo_env (Inr False)) tokenA fresh)) \<and>
   app demo_ethers None (demo_env (Inr True))
       (demo_request GET_divine_tokens (Some ''default-secure-api-key'') JUndefined)
       (snd (isTokenDivine (demo_env (Inr False)) tokenA fresh)) =
     (respond 200 (Divine_tokens_body []),
      snd (isTokenDivine (demo_env (Inr False)) tokenA fresh))"
proof -
  have miss: "map_of (divineTokensCache fresh) tokenA = None"
    by (simp add: fresh_simps)
  have verdict: "chain_isTokenDivine (demo_env (Inr False)) tokenA = Inr False"
    by (simp add: demo_env_simps)
  have wr: "write_cache (demo_env (Inr False)) = Written"
    by (simp add: demo_env_simps)
  have route: "req_route (demo_request GET_divine_tokens (Some ''default-secure-api-key'') JUndefined)
     = GET_divine_tokens"
    by (simp add: demo_request_def)
  have key: "x_api_key (demo_request GET_divine_tokens (Some ''default-secure-api-key'') JUndefined)
     = Some (API_KEY None)"
    by (simp add: demo_request_def API_KEY_def)
  have cache: "divineTokensCache (snd (isTokenDivine (demo_env (Inr False)) tokenA fresh)) =
     [(tokenA, False)]"
    by (simp add: isTokenDivine_miss_ok [OF miss verdict] fresh_simps)
  note inst = negative_verdict_cached_and_not_listed [OF miss verdict]
  from inst wr have persisted:
    "cache_file (snd (isTokenDivine (demo_env (Inr False)) tokenA fresh)) =
       Parsed (divineTokensCache (snd (isTokenDivine (demo_env (Inr False)) tokenA fresh)))"
    by blast
  from inst have again:
    "isTokenDivine (demo_env (Inr True)) tokenA
       (snd (isTokenDivine (demo_env (Inr False)) tokenA fresh)) =
     (Inr False, snd (isTokenDivine (demo_env (Inr False)) tokenA fresh))"
    by blast
  from inst route key have listing:
    "app demo_ethers None (demo_env (Inr True))
       (demo_request GET_divine_tokens (Some ''default-secure-api-key'') JUndefined)
       (snd (isTokenDivine (demo_env (Inr False)) tokenA fresh)) =
     (respond 200 (Divine_tokens_body (divine_tokens
         (divineTokensCache (snd (isTokenDivine (demo_env (Inr False)) tokenA fresh))))),
      snd (isTokenDivine (demo_env (Inr False)) tokenA fresh))"
    by blast
  have "divine_tokens [(tokenA, False)] = []" by (simp add: divine_tokens_def)
  with listing cache have listing':
    "app demo_ethers None (demo_env (Inr True))
       (demo_request GET_divine_tokens (Some ''default-secure-api-key'') JUndefined)
       (snd (isTokenDivine (demo_env (Inr False)) tokenA fresh)) =
     (respond 200 (Divine_tokens_body []),
      snd (isTokenDivine (demo_env (Inr False)) tokenA fresh))"
    by simp
  from persisted cache have persisted':
    "cache_file (snd (isTokenDivine (demo_env (Inr False)) tokenA fresh)) =
       Parsed [(tokenA, False)]" by simp
  from miss verdict wr route key cache persisted' again listing' show ?thesis by blast
qed


subsection \<open>Authentication\<close>

lemma validateApiKey_reject:
  "x_api_key req \<noteq> Some key \<Longrightarrow>
   validateApiKey key req next s =
     (respond 401 (Error_body ''Unauthorized: Invalid API key''), s)"
  by (simp add: validateApiKey_def split: option.splits)

text \<open>
  C7. On each of the four routes registered with \<open>validateApiKey\<close>, a request whose
  \<open>x-api-key\<close> header is absent or differs from the configured key is answered with status
  401 and the body \<open>{error: 'Unauthorized: Invalid API key'}\<close>, and the state is untouched:
  the handler does not run, so there is no chain call and no change of cache or files.
  \<open>GET /health\<close> answers 200 with \<open>{status: 'Olympus is in harmony'}\<close> whatever the header.
\<close>

theorem unauthorized_requests_get_401:
  "(authenticated (req_route req) \<and> x_api_key req \<noteq> Some (API_KEY env_var) \<longrightarrow>
      app L env_var w req s =
        (respond 401 (Error_body ''Unauthorized: Invalid API key''), s)) \<and>
   (req_route req = GET_health \<longrightarrow>
      app L env_var w req s = (respond 200 (Status_body ''Olympus is in harmony''), s))"
  by (auto simp: authenticated_def app_def validateApiKey_reject get_health_def)

theorem unauthorized_requests_get_401_witness:
  "authenticated (req_route (demo_request POST_bless_with_tokens (Some ''guess'') (JString ''5''))) \<and>
   x_api_key (demo_request POST_bless_with_tokens (Some ''guess'') (JString ''5''))
     \<noteq> Some (API_KEY (Some ''s3cret'')) \<and>
   app demo_ethers (Some ''s3cret'') (demo_env (Inr True))
       (demo_request POST_bless_with_tokens (Some ''guess'') (JString ''5'')) fresh =
     (respond 401 (Error_body ''Unauthorized: Invalid API key''), fresh) \<and>
   req_route (demo_request GET_health None JUndefined) = GET_health \<and>
   app demo_ethers (Some ''s3cret'') (demo_env (Inr True))
       (demo_request GET_health None JUndefined) fresh =
     (respond 200 (Status_body ''Olympus is in harmony''), fresh)"
proof -
  have a: "authenticated (req_route (demo_request POST_bless_with_tokens (Some ''guess'') (JString ''5'')))"
    by (simp add: authenticated_def demo_request_def)
  have k: "x_api_key (demo_request POST_bless_with_tokens (Some ''guess'') (JString ''5''))
     \<noteq> Some (API_KEY (Some ''s3cret''))"
    by (simp add: demo_request_def API_KEY_def)
  have h: "req_route (demo_request GET_health None JUndefined) = GET_health"
    by (simp add: demo_request_def)
  from a k h
    unauthorized_requests_get_401 [of "demo_request POST_bless_with_tokens (Some ''guess'') (JString ''5'')"
      "Some ''s3cret''" demo_ethers "demo_env (Inr True)" fresh]
    unauthorized_requests_get_401 [of "demo_request GET_health None JUndefined"
      "Some ''s3cret''" demo_ethers "demo_env (Inr True)" fresh]
  show ?thesis by blast
qed

text \<open>
  C8. With the environment variable \<open>API_KEY\<close> unset the configured key is the literal
  \<open>default-secure-api-key\<close>, and a request that presents it passes \<open>validateApiKey\<close> on every
  authenticated route: the service answers what the route's handler answers.
\<close>

theorem default_api_key_when_unset:
  "API_KEY None = ''default-secure-api-key'' \<and>
   (authenticated (req_route req) \<and> x_api_key req = Some ''default-secure-api-key'' \<longrightarrow>
      app L None w req s = handler L w req s)"
proof -
  have k: "API_KEY None = ''default-secure-api-key''" by (simp add: API_KEY_def)
  have "app L None w req s = handler L w req s"
    if "authenticated (req_route req)" and "x_api_key req = Some ''default-secure-api-key''"
  proof -
    from that(2) k have "x_api_key req = Some (API_KEY None)" by simp
    then have "\<And>next. validateApiKey (API_KEY None) req next s = next s"
      by (rule validateApiKey_pass)
    then show ?thesis using that(1)
      by (auto simp: authenticated_def app_def handler_def)
  qed
  with k show ?thesis by blast
qed

theorem default_api_key_when_unset_witness:
  "authenticated (req_route (demo_request GET_divine_tokens (Some ''default-secure-api-key'') JUndefined)) \<and>
   x_api_key (demo_request GET_divine_tokens (Some ''default-secure-api-key'') JUndefined) =
     Some ''default-secure-api-key'' \<and>
   app demo_ethers None (demo_env (Inr True))
       (demo_request GET_divine_tokens (Some ''default-secure-api-key'') JUndefined) fresh =
     (respond 200 (Divine_tokens_body []), fresh)"
proof -
  have a: "authenticated (req_route (demo_request GET_divine_tokens (Some ''default-secure-api-key'') JUndefined))"
    by (simp add: authenticated_def demo_request_def)
  have k: "x_api_key (demo_request GET_divine_tokens (Some ''default-secure-api-key'') JUndefined) =
     Some ''default-secure-api-key''"
    by (simp add: demo_request_def)
  have h: "handler demo_ethers (demo_env (Inr True))
             (demo_request GET_divine_tokens (Some ''default-secure-api-key'') JUndefined) fresh =
           (respond 200 (Divine_tokens_body []), fresh)"
    by (simp add: handler_def demo_request_def get_divine_tokens_def divine_tokens_def fresh_simps)
  from a k h
    default_api_key_when_unset [of "demo_request GET_divine_tokens (Some ''default-secure-api-key'') JUndefined"
      demo_ethers "demo_env (Inr True)" fresh]
  show ?thesis by simp
qed


subsection \<open>Blessing a token\<close>

lemma isTokenDivine_returns: "\<exists>b. fst (isTokenDivine w a s) = Inr b"
  by (auto simp: isTokenDivine_def split: option.splits sum.splits)

lemma post_bless_token_blessed:
  assumes addr: "isAddress L (body_tokenAddress req) = Some a"
    and verdict: "fst (isTokenDivine w a s) = Inr True"
  shows "post_bless_token L w req s =
           (respond 400 (Error_body ''Token already blessed''), snd (isTokenDivine w a s))"
proof -
  from verdict obtain s1 where "isTokenDivine w a s = (Inr True, s1)"
    by (cases "isTokenDivine w a s") simp
  then show ?thesis using addr by (simp add: post_bless_token_def)
qed

lemma post_bless_token_confirmed:
  assumes addr: "isAddress L (body_tokenAddress req) = Some a"
    and verdict: "fst (isTokenDivine w a s) = Inr False"
    and confirmed: "chain_blessToken w a = Inr r"
  shows "post_bless_token L w req s =
           (respond 200 (Token_body a (hash r) (blockNumber r)),
            saveDivineTokensCache w
              ((emit (Send_blessToken a) (snd (isTokenDivine w a s)))
                 \<lparr>divineTokensCache :=
                     AList.update a True (divineTokensCache (snd (isTokenDivine w a s)))\<rparr>))"
proof -
  from verdict obtain s1 where "isTokenDivine w a s = (Inr False, s1)"
    by (cases "isTokenDivine w a s") simp
  then show ?thesis using addr confirmed by (simp add: post_bless_token_def Let_def)
qed

lemma demo_isAddress_tokenA: "isAddress demo_ethers (JString tokenA) = Some tokenA"
  by (simp add: isAddress_def demo_ethers_def demo_isAddress_def tokenA_def isDecimalDigit_def)

lemma demo_isAddress_mortalB: "isAddress demo_ethers (JString mortalB) = Some mortalB"
  by (simp add: isAddress_def demo_ethers_def demo_isAddress_def mortalB_def isDecimalDigit_def)

lemma demo_request_simps:
  "req_route (demo_request r k v) = r"
  "x_api_key (demo_request r k v) = k"
  "body_tokenAddress (demo_request r k v) = JString tokenA"
  "body_recipient (demo_request r k v) = JString mortalB"
  "body_amount (demo_request r k v) = v"
  "body_reference (demo_request r k v) = JString ''ref-1''"
  by (simp_all add: demo_request_def)

text \<open>
  The embedded older handler, by contrast, leaves no entry for the token after a confirmed
  blessing, so the next lookup there asks the chain again.
\<close>

lemma post_bless_token_embedded_clears_entry:
  assumes addr: "isAddress L (body_tokenAddress req) = Some a"
    and verdict: "fst (isTokenDivine_embedded w a s) = Inr False"
    and confirmed: "chain_blessToken w a = Inr r"
  shows "map_of (divineTokensCache (snd (post_bless_token_embedded L w req s))) a = None"
proof -
  from verdict obtain s1 where "isTokenDivine_embedded w a s = (Inr False, s1)"
    by (cases "isTokenDivine_embedded w a s") simp
  then show ?thesis using addr confirmed
    by (simp add: post_bless_token_embedded_def Let_def delete_conv')
qed

text \<open>
  C4. An authorised \<open>POST /bless-token\<close> for a well-formed address that \<open>isTokenDivine\<close>
  reports as not divine, and whose \<open>blessToken\<close> transaction is confirmed, answers 200 and
  leaves the token cached as \<open>true\<close>: an \<open>isTokenDivine\<close> call right after it returns \<open>true\<close>
  and leaves the state, the trace of chain calls included, untouched. For a token that
  \<open>isTokenDivine\<close> reports as divine the answer is 400 \<open>Token already blessed\<close>, and nothing
  happens beyond that lookup: no transaction is sent.
\<close>

theorem bless_token_sets_cache_eligible:
  assumes route: "req_route req = POST_bless_token"
    and key: "x_api_key req = Some (API_KEY env_var)"
    and addr: "isAddress L (body_tokenAddress req) = Some a"
  shows "(fst (isTokenDivine w a s) = Inr False \<and> chain_blessToken w a = Inr r \<longrightarrow>
            fst (app L env_var w req s) = respond 200 (Token_body a (hash r) (blockNumber r)) \<and>
            map_of (divineTokensCache (snd (app L env_var w req s))) a = Some True \<and>
            (\<forall>w'. isTokenDivine w' a (snd (app L env_var w req s)) =
                    (Inr True, snd (app L env_var w req s)))) \<and>
         (fst (isTokenDivine w a s) = Inr True \<longrightarrow>
            app L env_var w req s =
              (respond 400 (Error_body ''Token already blessed''), snd (isTokenDivine w a s)))"
proof -
  have run: "app L env_var w req s = post_bless_token L w req s"
    using route key by (simp add: app_def validateApiKey_pass)
  have blessed: "app L env_var w req s =
      (respond 400 (Error_body ''Token already blessed''), snd (isTokenDivine w a s))"
    if "fst (isTokenDivine w a s) = Inr True"
    using run post_bless_token_blessed [OF addr that] by simp
  have fresh_blessing:
    "fst (app L env_var w req s) = respond 200 (Token_body a (hash r) (blockNumber r)) \<and>
     map_of (divineTokensCache (snd (app L env_var w req s))) a = Some True \<and>
     (\<forall>w'. isTokenDivine w' a (snd (app L env_var w req s)) =
             (Inr True, snd (app L env_var w req s)))"
    if v: "fst (isTokenDivine w a s) = Inr False" and c: "chain_blessToken w a = Inr r"
  proof -
    note eq = post_bless_token_confirmed [OF addr v c]
    have stored: "map_of (divineTokensCache (snd (app L env_var w req s))) a = Some True"
      by (simp add: run eq update_conv')
    then have "\<forall>w'. isTokenDivine w' a (snd (app L env_var w req s)) =
                 (Inr True, snd (app L env_var w req s))"
      by (simp add: isTokenDivine_hit)
    moreover have "fst (app L env_var w req s) =
                     respond 200 (Token_body a (hash r) (blockNumber r))"
      by (simp add: run eq)
    ultimately show ?thesis using stored by blast
  qed
  from blessed fresh_blessing show ?thesis by blast
qed

theorem bless_token_sets_cache_eligible_witness:
  "req_route (demo_request POST_bless_token (Some ''default-secure-api-key'') JUndefined) =
     POST_bless_token \<and>
   x_api_key (demo_request POST_bless_token (Some ''default-secure-api-key'') JUndefined) =
     Some (API_KEY None) \<and>
   isAddress demo_ethers
     (body_tokenAddress (demo_request POST_bless_token (Some ''default-secure-api-key'') JUndefined)) =
     Some tokenA \<and>
   fst (isTokenDivine (demo_env (Inr False)) tokenA fresh) = Inr False \<and>
   chain_blessToken (demo_env (Inr False)) tokenA = Inr demo_receipt \<and>
   fst (app demo_ethers None (demo_env (Inr False))
          (demo_request POST_bless_token (Some ''default-secure-api-key'') JUndefined) fresh) =
     respond 200 (Token_body tokenA ''0xfeed'' 7) \<and>
   divineTokensCache (snd (app demo_ethers None (demo_env (Inr False))
          (demo_request POST_bless_token (Some ''default-secure-api-key'') JUndefined) fresh)) =
     [(tokenA, True)] \<and>
   fst (isTokenDivine (demo_env (Inr False)) tokenA
      (snd (app demo_ethers None (demo_env (Inr False))
          (demo_request POST_bless_token (Some ''default-secure-api-key'') JUndefined) fresh))) =
     Inr True \<and>
   app demo_ethers None (demo_env (Inr False))
     (demo_request POST_bless_token (Some ''default-secure-api-key'') JUndefined)
     (snd (app demo_ethers None (demo_env (Inr False))
          (demo_request POST_bless_token (Some ''default-secure-api-key'') JUndefined) fresh)) =
     (respond 400 (Error_body ''Token already blessed''),
      snd (app demo_ethers None (demo_env (Inr False))
          (demo_request POST_bless_token (Some ''default-secure-api-key'') JUndefined) fresh))"
proof -
  let ?req = "demo_request POST_bless_token (Some ''default-secure-api-key'') JUndefined"
  let ?w = "demo_env (Inr False)"
  let ?s1 = "snd (app demo_ethers None ?w ?req fresh)"
  have route: "req_route ?req = POST_bless_token" by (simp add: demo_request_simps)
  have key: "x_api_key ?req = Some (API_KEY None)"
    by (simp add: demo_request_simps API_KEY_def)
  have addr: "isAddress demo_ethers (body_tokenAddress ?req) = Some tokenA"
    by (simp add: demo_request_simps demo_isAddress_tokenA)
  have miss: "map_of (divineTokensCache fresh) tokenA = None" by (simp add: fresh_simps)
  have chain: "chain_isTokenDivine ?w tokenA = Inr False" by (simp add: demo_env_simps)
  have v: "fst (isTokenDivine ?w tokenA fresh) = Inr False"
    by (simp add: isTokenDivine_miss_ok [OF miss chain])
  have c: "chain_blessToken ?w tokenA = Inr demo_receipt" by (simp add: demo_env_simps)
  note first = bless_token_sets_cache_eligible [OF route key addr, of ?w fresh demo_receipt]
  from first v c have ok: "fst (app demo_ethers None ?w ?req fresh) =
      respond 200 (Token_body tokenA (hash demo_receipt) (blockNumber demo_receipt))"
    by blast
  from first v c have again: "isTokenDivine ?w tokenA ?s1 = (Inr True, ?s1)"
    by blast
  then have v': "fst (isTokenDivine ?w tokenA ?s1) = Inr True" by simp
  from bless_token_sets_cache_eligible [OF route key addr, of ?w ?s1 demo_receipt] v' again
  have second: "app demo_ethers None ?w ?req ?s1 =
      (respond 400 (Error_body ''Token already blessed''), ?s1)"
    by simp
  have run: "app demo_ethers None ?w ?req fresh = post_bless_token demo_ethers ?w ?req fresh"
    using route key by (simp add: app_def validateApiKey_pass)
  have cache: "divineTokensCache ?s1 = [(tokenA, True)]"
    by (simp add: run post_bless_token_confirmed [OF addr v c]
        isTokenDivine_miss_ok [OF miss chain] fresh_simps)
  from ok have ok': "fst (app demo_ethers None ?w ?req fresh) =
      respond 200 (Token_body tokenA ''0xfeed'' 7)"
    by (simp add: demo_receipt_def)
  from route key addr v c ok' cache v' second show ?thesis by blast
qed


subsection \<open>Validation of a disbursement\<close>

lemma invalid_amount_zero: "invalid_amount (JString ''0'') = Inr True"
  by (simp add: invalid_amount_def StringToNumber_def trimString_def isStrWhiteSpaceChar_def
      NonDecimalIntegerLiteral_def StrUnsignedDecimalLiteral_def isDecimalDigit_def
      digitValue_def toDouble_def isNaN_def pow10_def Let_def)

lemma invalid_amount_minus_five: "invalid_amount (JString ''-5'') = Inr True"
  by (simp add: invalid_amount_def StringToNumber_def trimString_def isStrWhiteSpaceChar_def
      NonDecimalIntegerLiteral_def StrUnsignedDecimalLiteral_def isDecimalDigit_def
      digitValue_def toDouble_def isNaN_def pow10_def Let_def)

lemma demo_ethers_simps:
  "ethers_isAddress demo_ethers = demo_isAddress"
  "ethers_formatUnits demo_ethers = demo_formatUnits"
  "ethers_parseUnits demo_ethers = demo_parseUnits"
  by (simp_all add: demo_ethers_def)

lemma valid_amount_true: "invalid_amount (JBool True) = Inr False"
  by (simp add: invalid_amount_def isNaN_def)

text \<open>
  An amount whose conversion to a Number throws, such as the JSON object
  \<open>{"toString": null}\<close>, is neither accepted nor answered with 400: the exception reaches the
  \<open>catch\<close> of the handler, which answers 500 with the message, before any chain call.
\<close>

lemma ToNumber_throws_iff:
  "ToNumber v = Inl e \<longleftrightarrow> ToPrimitive_throws v \<and> e = TypeError_primitive"
  by (induction v rule: ToNumber.induct) auto

lemma invalid_amount_throws:
  "invalid_amount (JObject [(''toString'', JNull)]) = Inl TypeError_primitive"
  by (simp add: invalid_amount_def)

lemma post_bless_with_tokens_conversion_throws:
  assumes "isAddress L (body_tokenAddress req) = Some token"
    and "isAddress L (body_recipient req) = Some recipient"
    and "invalid_amount (body_amount req) = Inl e"
  shows "post_bless_with_tokens L w req s =
           (respond 500 (Error_details ''Failed to bestow blessing'' e), s)"
  using assms by (simp add: post_bless_with_tokens_def)

text \<open>
  C5, as the code has it. An authorised \<open>POST /bless-with-tokens\<close> is answered with status
  400 and an \<open>{error}\<close> body, with the state untouched (no eligibility lookup, no decimals
  lookup, no transaction, no change of cache or files), whenever \<open>tokenAddress\<close> or
  \<open>recipient\<close> is not a well-formed address, or the check of the handler on the amount
  comes out true: the amount is falsy, or \<open>Number(amount)\<close> is \<open>NaN\<close>, or
  \<open>Number(amount) <= 0\<close>. For the amounts \<open>"0"\<close> and \<open>"-5"\<close> it comes out true.
\<close>

theorem bless_with_tokens_rejects_invalid_input:
  assumes route: "req_route req = POST_bless_with_tokens"
    and key: "x_api_key req = Some (API_KEY env_var)"
  shows "(isAddress L (body_tokenAddress req) = None \<or>
          isAddress L (body_recipient req) = None \<or>
          invalid_amount (body_amount req) = Inr True \<longrightarrow>
            status (fst (app L env_var w req s)) = 400 \<and>
            (\<exists>msg. json (fst (app L env_var w req s)) = Error_body msg) \<and>
            snd (app L env_var w req s) = s) \<and>
         invalid_amount (JString ''0'') = Inr True \<and>
         invalid_amount (JString ''-5'') = Inr True"
proof -
  have run: "app L env_var w req s = post_bless_with_tokens L w req s"
    using route key by (simp add: app_def validateApiKey_pass)
  have "status (fst (post_bless_with_tokens L w req s)) = 400 \<and>
        (\<exists>msg. json (fst (post_bless_with_tokens L w req s)) = Error_body msg) \<and>
        snd (post_bless_with_tokens L w req s) = s"
    if "isAddress L (body_tokenAddress req) = None \<or>
        isAddress L (body_recipient req) = None \<or>
        invalid_amount (body_amount req) = Inr True"
    using that
    by (cases "isAddress L (body_tokenAddress req)"; cases "isAddress L (body_recipient req)")
      (simp_all add: post_bless_with_tokens_def respond_def)
  then show ?thesis
    using invalid_amount_zero invalid_amount_minus_five by (simp add: run)
qed

theorem bless_with_tokens_rejects_invalid_input_witness:
  "req_route (demo_request POST_bless_with_tokens (Some ''default-secure-api-key'') (JString ''-5''))
     = POST_bless_with_tokens \<and>
   x_api_key (demo_request POST_bless_with_tokens (Some ''default-secure-api-key'') (JString ''-5''))
     = Some (API_KEY None) \<and>
   invalid_amount
     (body_amount (demo_request POST_bless_with_tokens (Some ''default-secure-api-key'') (JString ''-5'')))
     = Inr True \<and>
   app demo_ethers None (demo_env (Inr True))
     (demo_request POST_bless_with_tokens (Some ''default-secure-api-key'') (JString ''-5'')) fresh =
     (respond 400 (Error_body ''Invalid amount''), fresh)"
proof -
  let ?req = "demo_request POST_bless_with_tokens (Some ''default-secure-api-key'') (JString ''-5'')"
  have route: "req_route ?req = POST_bless_with_tokens" by (simp add: demo_request_simps)
  have key: "x_api_key ?req = Some (API_KEY None)"
    by (simp add: demo_request_simps API_KEY_def)
  have bad: "invalid_amount (body_amount ?req) = Inr True"
    by (simp add: demo_request_simps invalid_amount_minus_five)
  from bless_with_tokens_rejects_invalid_input [OF route key, of demo_ethers "demo_env (Inr True)" fresh] bad
  have unchanged: "snd (app demo_ethers None (demo_env (Inr True)) ?req fresh) = fresh"
    and code: "status (fst (app demo_ethers None (demo_env (Inr True)) ?req fresh)) = 400"
    by blast+
  have "fst (app demo_ethers None (demo_env (Inr True)) ?req fresh) =
          respond 400 (Error_body ''Invalid amount'')"
    using route key bad
    by (simp add: app_def validateApiKey_pass post_bless_with_tokens_def demo_request_simps
        demo_isAddress_tokenA demo_isAddress_mortalB)
  with unchanged have "app demo_ethers None (demo_env (Inr True)) ?req fresh =
     (respond 400 (Error_body ''Invalid amount''), fresh)"
    by (simp add: prod_eq_iff)
  with route key bad show ?thesis by blast
qed

text \<open>
  C5 as stated speaks of every amount that is not a positive number. The JSON boolean
  \<open>true\<close> is not a number, but \<open>!true\<close> is false and \<open>Number(true)\<close> is 1, so the check
  comes out false: the handler goes on to the eligibility lookup, which calls the chain and
  writes the cache. Here the chain says the token is not divine, and the answer is a 400
  for that reason, after the chain call and with the cache and its file changed.
\<close>

theorem bless_with_tokens_boolean_amount_counterexample:
  "invalid_amount (JBool True) = Inr False \<and>
   app demo_ethers None (demo_env (Inr False))
     (demo_request POST_bless_with_tokens (Some ''default-secure-api-key'') (JBool True)) fresh =
     (respond 400 (Error_body ''Token not blessed by Olympus''),
      fresh\<lparr>cache_file := Parsed [(tokenA, False)],
            divineTokensCache := [(tokenA, False)],
            trace := [Call_isTokenDivine tokenA]\<rparr>) \<and>
   chain_calls (snd (app demo_ethers None (demo_env (Inr False))
     (demo_request POST_bless_with_tokens (Some ''default-secure-api-key'') (JBool True)) fresh)) =
     [Call_isTokenDivine tokenA] \<and>
   snd (app demo_ethers None (demo_env (Inr False))
     (demo_request POST_bless_with_tokens (Some ''default-secure-api-key'') (JBool True)) fresh)
     \<noteq> fresh"
proof -
  let ?req = "demo_request POST_bless_with_tokens (Some ''default-secure-api-key'') (JBool True)"
  have miss: "map_of (divineTokensCache fresh) tokenA = None" by (simp add: fresh_simps)
  have no: "chain_isTokenDivine (demo_env (Inr False)) tokenA = Inr False"
    by (simp add: demo_env_simps)
  have r1: "app demo_ethers None (demo_env (Inr False)) ?req fresh =
     (respond 400 (Error_body ''Token not blessed by Olympus''),
      fresh\<lparr>cache_file := Parsed [(tokenA, False)],
            divineTokensCache := [(tokenA, False)],
            trace := [Call_isTokenDivine tokenA]\<rparr>)"
    by (simp add: app_def validateApiKey_def API_KEY_def post_bless_with_tokens_def
        demo_request_simps demo_isAddress_tokenA demo_isAddress_mortalB valid_amount_true
        isTokenDivine_miss_ok [OF miss no] saveDivineTokensCache_def demo_env_simps emit_def
        fresh_simps)
  have changed: "fresh\<lparr>cache_file := Parsed [(tokenA, False)],
            divineTokensCache := [(tokenA, False)],
            trace := [Call_isTokenDivine tokenA]\<rparr> \<noteq> fresh"
  proof
    assume "fresh\<lparr>cache_file := Parsed [(tokenA, False)],
            divineTokensCache := [(tokenA, False)],
            trace := [Call_isTokenDivine tokenA]\<rparr> = fresh"
    then have "trace (fresh\<lparr>cache_file := Parsed [(tokenA, False)],
            divineTokensCache := [(tokenA, False)],
            trace := [Call_isTokenDivine tokenA]\<rparr>) = trace fresh" by simp
    then show False by (simp add: fresh_simps)
  qed
  show ?thesis using valid_amount_true changed
    by (simp add: r1 chain_calls_def)
qed

subsection \<open>The transaction log\<close>

lemma transactionExists_iff: "transactionExists h db \<longleftrightarrow> h \<in> set (map txHash db)"
  by (auto simp: transactionExists_def list_ex_iff)

lemma getTokenDecimals_eq:
  "getTokenDecimals w a s = (Inr (decimals_for w a), emit (Call_decimals a) s)"
  by (simp add: getTokenDecimals_def decimals_for_def split: sum.splits)

lemma loadTransactionDB_emit [simp]:
  "loadTransactionDB (emit e s) = loadTransactionDB s"
  by (simp add: loadTransactionDB_def)

lemma appendTransaction_present:
  "transactionExists (txHash tx) (loadTransactionDB s) \<Longrightarrow>
   appendTransaction w tx s = (Inr (), s)"
  by (simp add: appendTransaction_def)

lemma appendTransaction_new:
  "\<not> transactionExists (txHash tx) (loadTransactionDB s) \<Longrightarrow> write_trdb w = Written \<Longrightarrow>
   appendTransaction w tx s = (Inr (), s\<lparr>trdb := Parsed (loadTransactionDB s @ [tx])\<rparr>)"
  by (simp add: appendTransaction_def saveTransactionDB_def)

lemma appendTransaction_distinct:
  assumes "distinct (map txHash (loadTransactionDB s))"
  shows "distinct (map txHash (loadTransactionDB (snd (appendTransaction w tx s))))"
  using assms
  by (auto simp: appendTransaction_def saveTransactionDB_def loadTransactionDB_def
      transactionExists_iff Let_def split: fs_write.splits json_file.splits)

lemma txHash_make_txData [simp]: "txHash (make_txData w ev f) = ev_txHash ev"
  by (simp add: make_txData_def)

lemma onOffering_duplicate:
  assumes dup: "transactionExists (ev_txHash ev) (loadTransactionDB s)"
  shows "onOffering L w ev s =
           (case payload_of L w ev of
              None \<Rightarrow> emit (Call_decimals (ev_tokenAddress ev)) s
            | Some p \<Rightarrow> emit (Post_token_received p) (emit (Call_decimals (ev_tokenAddress ev)) s))"
  using dup
  by (simp add: onOffering_def getTokenDecimals_eq payload_of_def appendTransaction_present
      split: sum.splits)

lemma onOffering_new:
  assumes new: "\<not> transactionExists (ev_txHash ev) (loadTransactionDB s)"
    and rec: "record_of L w ev = Some tx" and wr: "write_trdb w = Written"
  shows "loadTransactionDB (onOffering L w ev s) = loadTransactionDB s @ [tx]"
  using new rec wr
  by (auto simp: onOffering_def getTokenDecimals_eq record_of_def appendTransaction_new
      loadTransactionDB_def emit_def split: sum.splits)

lemma onOffering_duplicate_log:
  "transactionExists (ev_txHash ev) (loadTransactionDB s) \<Longrightarrow>
   loadTransactionDB (onOffering L w ev s) = loadTransactionDB s"
  by (simp add: onOffering_duplicate split: option.splits)

lemma onOfferings_log:
  assumes "distinct (map (ev_txHash \<circ> snd) evs)" and "list_all (storable L) evs"
  shows "map Some (loadTransactionDB (onOfferings L evs s)) =
           map Some (loadTransactionDB s) @
           map (\<lambda>p. record_of L (fst p) (snd p))
             (filter (\<lambda>p. ev_txHash (snd p) \<notin> set (map txHash (loadTransactionDB s))) evs)"
  using assms
proof (induction evs arbitrary: s)
  case Nil
  then show ?case by simp
next
  case (Cons p evs)
  obtain w ev where p: "p = (w, ev)" by (cases p)
  from Cons.prems have d: "distinct (map (ev_txHash \<circ> snd) evs)"
    and fresh_id: "ev_txHash ev \<notin> set (map (ev_txHash \<circ> snd) evs)"
    and st: "list_all (storable L) evs" and st1: "storable L (w, ev)"
    by (simp_all add: p comp_def)
  note IH = Cons.IH [OF d st]
  show ?case
  proof (cases "transactionExists (ev_txHash ev) (loadTransactionDB s)")
    case True
    then have same: "loadTransactionDB (onOffering L w ev s) = loadTransactionDB s"
      by (rule onOffering_duplicate_log)
    from True have "ev_txHash ev \<in> set (map txHash (loadTransactionDB s))"
      by (simp add: transactionExists_iff)
    then show ?thesis using IH [of "onOffering L w ev s"] by (simp add: p same)
  next
    case False
    from st1 obtain tx where rec: "record_of L w ev = Some tx" and wr: "write_trdb w = Written"
      by (auto simp: storable_def)
    have grown: "loadTransactionDB (onOffering L w ev s) = loadTransactionDB s @ [tx]"
      using False rec wr by (rule onOffering_new)
    have h: "txHash tx = ev_txHash ev"
      using rec by (auto simp: record_of_def split: sum.splits)
    have new: "ev_txHash ev \<notin> set (map txHash (loadTransactionDB s))"
      using False by (simp add: transactionExists_iff)
    have keep: "filter (\<lambda>p. ev_txHash (snd p) \<notin> set (map txHash (loadTransactionDB s @ [tx]))) evs =
                filter (\<lambda>p. ev_txHash (snd p) \<notin> set (map txHash (loadTransactionDB s))) evs"
      using fresh_id by (intro filter_cong) (force simp: h)+
    have "map Some (loadTransactionDB (onOfferings L evs (onOffering L w ev s))) =
            map Some (loadTransactionDB s @ [tx]) @
            map (\<lambda>p. record_of L (fst p) (snd p))
              (filter (\<lambda>p. ev_txHash (snd p) \<notin> set (map txHash (loadTransactionDB s))) evs)"
      using IH [of "onOffering L w ev s"] by (simp only: grown keep)
    then show ?thesis using new by (simp add: p rec)
  qed
qed

lemma onOfferings_hashes:
  assumes "distinct (map (ev_txHash \<circ> snd) evs)" and "list_all (storable L) evs"
  shows "map txHash (loadTransactionDB (onOfferings L evs s)) =
           map txHash (loadTransactionDB s) @
           filter (\<lambda>h. h \<notin> set (map txHash (loadTransactionDB s))) (map (ev_txHash \<circ> snd) evs)"
proof -
  have rec_hash: "map_option txHash (record_of L (fst p) (snd p)) = Some (ev_txHash (snd p))"
    if "p \<in> set evs" for p
  proof -
    from that assms(2) have "storable L p" by (simp add: list_all_iff)
    then show ?thesis by (auto simp: storable_def record_of_def split: sum.splits)
  qed
  have "map (map_option txHash) (map Some (loadTransactionDB (onOfferings L evs s))) =
        map (map_option txHash) (map Some (loadTransactionDB s) @
           map (\<lambda>p. record_of L (fst p) (snd p))
             (filter (\<lambda>p. ev_txHash (snd p) \<notin> set (map txHash (loadTransactionDB s))) evs))"
    by (simp only: onOfferings_log [OF assms])
  then have "map Some (map txHash (loadTransactionDB (onOfferings L evs s))) =
        map Some (map txHash (loadTransactionDB s)) @
        map Some (map (ev_txHash \<circ> snd)
             (filter (\<lambda>p. ev_txHash (snd p) \<notin> set (map txHash (loadTransactionDB s))) evs))"
    using rec_hash by (simp add: comp_def cong: map_cong)
  then have "map Some (map txHash (loadTransactionDB (onOfferings L evs s))) =
        map Some (map txHash (loadTransactionDB s) @
          map (ev_txHash \<circ> snd)
             (filter (\<lambda>p. ev_txHash (snd p) \<notin> set (map txHash (loadTransactionDB s))) evs))"
    by simp
  then have "map txHash (loadTransactionDB (onOfferings L evs s)) =
        map txHash (loadTransactionDB s) @
          map (ev_txHash \<circ> snd)
             (filter (\<lambda>p. ev_txHash (snd p) \<notin> set (map txHash (loadTransactionDB s))) evs)"
    by (simp only: inj_map_eq_map [OF inj_Some])
  then show ?thesis by (simp add: filter_map comp_def)
qed

lemma offering_simps:
  "ev_tokenAddress offering1 = tokenA" "ev_amount offering1 = 1000000000000000000"
  "ev_txHash offering1 = ''0xhash1''" "ev_mortal offering1 = mortalB"
  "ev_tokenAddress offering2 = tokenA" "ev_amount offering2 = 2500000000000000000"
  "ev_txHash offering2 = ''0xhash2''" "ev_mortal offering2 = mortalB"
  by (simp_all add: offering1_def offering2_def)

lemma demo_formatUnits_one: "demo_formatUnits 1000000000000000000 18 = Inr ''1.0''"
  by (simp add: demo_formatUnits_def toString.simps digitChar_def Let_def)

lemma demo_formatUnits_two_and_a_half: "demo_formatUnits 2500000000000000000 18 = Inr ''2.5''"
  by (simp add: demo_formatUnits_def toString.simps digitChar_def Let_def)

lemma record_of_offering1:
  "record_of demo_ethers (demo_env v) offering1 = Some (make_txData (demo_env v) offering1 ''1.0'')"
  by (simp add: record_of_def decimals_for_def demo_env_simps demo_ethers_simps offering_simps
      demo_formatUnits_one)

lemma record_of_offering2:
  "record_of demo_ethers (demo_env v) offering2 = Some (make_txData (demo_env v) offering2 ''2.5'')"
  by (simp add: record_of_def decimals_for_def demo_env_simps demo_ethers_simps offering_simps
      demo_formatUnits_two_and_a_half)

lemma payload_of_offering1:
  "payload_of demo_ethers (demo_env v) offering1 = Some (make_payload (demo_env v) offering1 ''1.0'')"
  by (simp add: payload_of_def decimals_for_def demo_env_simps demo_ethers_simps offering_simps
      demo_formatUnits_one)

lemma first_delivery:
  "onOffering demo_ethers (demo_env v) offering1 fresh =
     fresh\<lparr>trdb := Parsed [make_txData (demo_env v) offering1 ''1.0''],
           trace := [Call_decimals tokenA,
                     Post_token_received (make_payload (demo_env v) offering1 ''1.0'')]\<rparr>"
  by (simp add: onOffering_def getTokenDecimals_eq decimals_for_def demo_env_simps
      demo_ethers_simps offering_simps demo_formatUnits_one appendTransaction_def
      loadTransactionDB_def transactionExists_def saveTransactionDB_def emit_def fresh_simps)

text \<open>
  C1, as the code has it. Handling an offering whose \<open>txHash\<close> is already in the
  transaction database leaves the file, and so the size and the content of the log,
  unchanged. The backend is notified all the same: when the amount formats, the handler
  posts the payload of the offering once more, as the last notification of the trace.
\<close>

theorem redelivered_offering_leaves_log_unchanged:
  assumes dup: "transactionExists (ev_txHash ev) (loadTransactionDB s)"
  shows "trdb (onOffering L w ev s) = trdb s \<and>
         loadTransactionDB (onOffering L w ev s) = loadTransactionDB s \<and>
         (\<forall>p. payload_of L w ev = Some p \<longrightarrow>
            notifications (onOffering L w ev s) = notifications s @ [Post_token_received p])"
  by (auto simp: onOffering_duplicate [OF dup] notifications_def loadTransactionDB_def
      split: option.splits)


theorem redelivered_offering_leaves_log_unchanged_witness:
  "transactionExists (ev_txHash offering1)
     (loadTransactionDB (onOffering demo_ethers (demo_env (Inr True)) offering1 fresh)) \<and>
   payload_of demo_ethers (demo_env (Inr True)) offering1 =
     Some (make_payload (demo_env (Inr True)) offering1 ''1.0'') \<and>
   loadTransactionDB (onOffering demo_ethers (demo_env (Inr True)) offering1
       (onOffering demo_ethers (demo_env (Inr True)) offering1 fresh)) =
     [make_txData (demo_env (Inr True)) offering1 ''1.0''] \<and>
   notifications (onOffering demo_ethers (demo_env (Inr True)) offering1
       (onOffering demo_ethers (demo_env (Inr True)) offering1 fresh)) =
     [Post_token_received (make_payload (demo_env (Inr True)) offering1 ''1.0''),
      Post_token_received (make_payload (demo_env (Inr True)) offering1 ''1.0'')]"
proof -
  let ?w = "demo_env (Inr True)"
  let ?s1 = "onOffering demo_ethers ?w offering1 fresh"
  have log1: "loadTransactionDB ?s1 = [make_txData ?w offering1 ''1.0'']"
    by (simp add: first_delivery loadTransactionDB_def)
  have dup: "transactionExists (ev_txHash offering1) (loadTransactionDB ?s1)"
    by (simp add: log1 transactionExists_def)
  have pay: "payload_of demo_ethers ?w offering1 = Some (make_payload ?w offering1 ''1.0'')"
    by (rule payload_of_offering1)
  have n1: "notifications ?s1 = [Post_token_received (make_payload ?w offering1 ''1.0'')]"
    by (simp add: first_delivery notifications_def)
  note inst = redelivered_offering_leaves_log_unchanged [OF dup, of demo_ethers ?w]
  from inst have same: "loadTransactionDB (onOffering demo_ethers ?w offering1 ?s1) =
      loadTransactionDB ?s1" by blast
  from inst pay have again: "notifications (onOffering demo_ethers ?w offering1 ?s1) =
      notifications ?s1 @ [Post_token_received (make_payload ?w offering1 ''1.0'')]" by blast
  from dup pay same again show ?thesis by (simp add: log1 n1)
qed

text \<open>
  C1 as stated says that the notifier is not invoked a second time for the identifier.
  The listener calls \<open>appendTransaction\<close>, which skips the write for a known \<open>txHash\<close>, and
  then posts to the backend without asking whether the record was new: delivering the
  same offering twice to a fresh service leaves one record and sends two notifications
  with that \<open>txHash\<close>.
\<close>

theorem redelivery_notifies_again_counterexample:
  "transactionExists (ev_txHash offering1)
     (loadTransactionDB (onOffering demo_ethers (demo_env (Inr True)) offering1 fresh)) \<and>
   length (notifications (onOffering demo_ethers (demo_env (Inr True)) offering1 fresh)) = 1 \<and>
   length (notifications (onOffering demo_ethers (demo_env (Inr True)) offering1
       (onOffering demo_ethers (demo_env (Inr True)) offering1 fresh))) = 2 \<and>
   notifications (onOffering demo_ethers (demo_env (Inr True)) offering1
       (onOffering demo_ethers (demo_env (Inr True)) offering1 fresh)) =
     [Post_token_received (make_payload (demo_env (Inr True)) offering1 ''1.0''),
      Post_token_received (make_payload (demo_env (Inr True)) offering1 ''1.0'')] \<and>
   p_txHash (make_payload (demo_env (Inr True)) offering1 ''1.0'') = ev_txHash offering1"
proof -
  let ?w = "demo_env (Inr True)"
  let ?s1 = "onOffering demo_ethers ?w offering1 fresh"
  have log1: "loadTransactionDB ?s1 = [make_txData ?w offering1 ''1.0'']"
    by (simp add: first_delivery loadTransactionDB_def)
  have dup: "transactionExists (ev_txHash offering1) (loadTransactionDB ?s1)"
    by (simp add: log1 transactionExists_def)
  have n1: "notifications ?s1 = [Post_token_received (make_payload ?w offering1 ''1.0'')]"
    by (simp add: first_delivery notifications_def)
  have n2: "notifications (onOffering demo_ethers ?w offering1 ?s1) =
     [Post_token_received (make_payload ?w offering1 ''1.0''),
      Post_token_received (make_payload ?w offering1 ''1.0'')]"
  proof -
    have "onOffering demo_ethers ?w offering1 ?s1 =
            emit (Post_token_received (make_payload ?w offering1 ''1.0''))
              (emit (Call_decimals (ev_tokenAddress offering1)) ?s1)"
      by (simp only: onOffering_duplicate [OF dup] payload_of_offering1 option.case)
    then show ?thesis using n1 by (simp add: notifications_def)
  qed
  show ?thesis using dup by (simp add: n1 n2 make_payload_def)
qed

text \<open>
  C2, as the code has it. Take offerings with pairwise distinct \<open>txHash\<close>, each handled in
  a world where its amount formats and the write of \<open>./trdb.json\<close> goes through. Afterwards the log is the
  log from before followed by one record for each offering whose \<open>txHash\<close> the log did not
  hold, in arrival order; starting from an empty log, the \<open>txHash\<close> column of the log is the
  list of the identifiers as they arrived. And \<open>appendTransaction\<close>, whatever the outcome of
  its write, keeps the \<open>txHash\<close> values of the log pairwise distinct.
\<close>

theorem distinct_offerings_logged_once_in_order:
  assumes ids: "distinct (map (ev_txHash \<circ> snd) evs)"
    and works: "list_all (storable L) evs"
  shows "map Some (loadTransactionDB (onOfferings L evs s)) =
           map Some (loadTransactionDB s) @
           map (\<lambda>p. record_of L (fst p) (snd p))
             (filter (\<lambda>p. ev_txHash (snd p) \<notin> set (map txHash (loadTransactionDB s))) evs) \<and>
         map txHash (loadTransactionDB (onOfferings L evs s)) =
           map txHash (loadTransactionDB s) @
           filter (\<lambda>h. h \<notin> set (map txHash (loadTransactionDB s))) (map (ev_txHash \<circ> snd) evs) \<and>
         (loadTransactionDB s = [] \<longrightarrow>
            map txHash (loadTransactionDB (onOfferings L evs s)) = map (ev_txHash \<circ> snd) evs) \<and>
         (\<forall>w tx t. distinct (map txHash (loadTransactionDB t)) \<longrightarrow>
            distinct (map txHash (loadTransactionDB (snd (appendTransaction w tx t)))))"
proof -
  note a = onOfferings_log [OF ids works, of s]
  note b = onOfferings_hashes [OF ids works, of s]
  have c: "loadTransactionDB s = [] \<longrightarrow>
            map txHash (loadTransactionDB (onOfferings L evs s)) = map (ev_txHash \<circ> snd) evs"
    using b by simp
  have d: "\<forall>w tx t. distinct (map txHash (loadTransactionDB t)) \<longrightarrow>
            distinct (map txHash (loadTransactionDB (snd (appendTransaction w tx t))))"
    by (simp add: appendTransaction_distinct)
  from a b c d show ?thesis by blast
qed


theorem distinct_offerings_logged_once_in_order_witness:
  "distinct (map (ev_txHash \<circ> snd)
     [(demo_env (Inr True), offering1), (demo_env (Inr True), offering2)]) \<and>
   list_all (storable demo_ethers)
     [(demo_env (Inr True), offering1), (demo_env (Inr True), offering2)] \<and>
   loadTransactionDB fresh = [] \<and>
   map txHash (loadTransactionDB (onOfferings demo_ethers
     [(demo_env (Inr True), offering1), (demo_env (Inr True), offering2)] fresh)) =
     [''0xhash1'', ''0xhash2''] \<and>
   loadTransactionDB (onOfferings demo_ethers
     [(demo_env (Inr True), offering1), (demo_env (Inr True), offering2)] fresh) =
     [make_txData (demo_env (Inr True)) offering1 ''1.0'',
      make_txData (demo_env (Inr True)) offering2 ''2.5''] \<and>
   distinct (map txHash (loadTransactionDB (snd (appendTransaction (demo_env (Inr True))
     (make_txData (demo_env (Inr True)) offering1 ''1.0'') fresh))))"
proof -
  let ?w = "demo_env (Inr True)"
  let ?evs = "[(?w, offering1), (?w, offering2)]"
  have ids: "distinct (map (ev_txHash \<circ> snd) ?evs)" by (simp add: offering_simps)
  have works: "list_all (storable demo_ethers) ?evs"
    by (simp add: storable_def record_of_offering1 record_of_offering2 demo_env_simps)
  have empty: "loadTransactionDB fresh = []" by (simp add: loadTransactionDB_def fresh_simps)
  have inv: "distinct (map txHash (loadTransactionDB fresh))" by (simp add: empty)
  note inst = distinct_offerings_logged_once_in_order [OF ids works, of fresh]
  from inst empty have hashes:
    "map txHash (loadTransactionDB (onOfferings demo_ethers ?evs fresh)) =
       map (ev_txHash \<circ> snd) ?evs" by blast
  from inst have recs:
    "map Some (loadTransactionDB (onOfferings demo_ethers ?evs fresh)) =
       map Some (loadTransactionDB fresh) @
       map (\<lambda>p. record_of demo_ethers (fst p) (snd p))
         (filter (\<lambda>p. ev_txHash (snd p) \<notin> set (map txHash (loadTransactionDB fresh))) ?evs)"
    by blast
  then have "map Some (loadTransactionDB (onOfferings demo_ethers ?evs fresh)) =
       map Some [make_txData ?w offering1 ''1.0'', make_txData ?w offering2 ''2.5'']"
    by (simp add: empty record_of_offering1 record_of_offering2)
  then have recs': "loadTransactionDB (onOfferings demo_ethers ?evs fresh) =
       [make_txData ?w offering1 ''1.0'', make_txData ?w offering2 ''2.5'']"
    by (simp only: inj_map_eq_map [OF inj_Some])
  from inst inv have kept: "distinct (map txHash (loadTransactionDB (snd (appendTransaction ?w
     (make_txData ?w offering1 ''1.0'') fresh))))" by blast
  from hashes have hashes':
    "map txHash (loadTransactionDB (onOfferings demo_ethers ?evs fresh)) =
       [''0xhash1'', ''0xhash2'']" by (simp add: offering_simps)
  from ids works empty hashes' recs' kept show ?thesis by blast
qed


text \<open>
  C2 as stated speaks of every sequence of offerings with distinct identifiers. The record
  is built and appended inside the \<open>try\<close> block of the listener, after \<open>formatUnits\<close>: when
  that throws, as it does for a token that reports 255 decimals, the \<open>catch\<close> logs and the
  offering leaves no record. Of two offerings with distinct identifiers, the first for such
  a token, the log holds the second only.
\<close>

theorem unformattable_offering_not_logged_counterexample:
  "distinct (map (ev_txHash \<circ> snd)
     [(many_decimals_env, offering1), (demo_env (Inr True), offering2)]) \<and>
   map (ev_txHash \<circ> snd)
     [(many_decimals_env, offering1), (demo_env (Inr True), offering2)] =
     [''0xhash1'', ''0xhash2''] \<and>
   write_trdb many_decimals_env = Written \<and>
   loadTransactionDB fresh = [] \<and>
   loadTransactionDB (onOffering demo_ethers many_decimals_env offering1 fresh) = [] \<and>
   map txHash (loadTransactionDB (onOfferings demo_ethers
     [(many_decimals_env, offering1), (demo_env (Inr True), offering2)] fresh)) =
     [''0xhash2'']"
proof -
  have first: "onOffering demo_ethers many_decimals_env offering1 fresh =
                 emit (Call_decimals tokenA) fresh"
    by (simp add: onOffering_def getTokenDecimals_eq decimals_for_def many_decimals_env_def
        demo_ethers_simps offering_simps demo_formatUnits_def)
  have empty: "loadTransactionDB fresh = []"
    by (simp add: loadTransactionDB_def fresh_simps)
  have new: "\<not> transactionExists (ev_txHash offering2)
               (loadTransactionDB (emit (Call_decimals tokenA) fresh))"
    by (simp add: empty transactionExists_def)
  have second: "loadTransactionDB (onOffering demo_ethers (demo_env (Inr True)) offering2
                   (emit (Call_decimals tokenA) fresh)) =
                 [make_txData (demo_env (Inr True)) offering2 ''2.5'']"
    using onOffering_new [OF new record_of_offering2, of "Inr True"]
    by (simp add: empty demo_env_simps)
  have wr: "write_trdb many_decimals_env = Written"
    by (simp add: many_decimals_env_def demo_env_simps)
  show ?thesis
    using wr by (simp add: first empty second offering_simps)
qed

end
